theory Spec2Isabelle
  imports Complex_Main
begin

section \<open>Floating-point values as numpy produces them\<close>

text \<open>
  The agent of \<^verbatim>\<open>chainerrl/agents/acer.py\<close> computes with numpy arrays and numpy scalars.
  A numpy division by zero does not raise: it yields an infinity or a NaN, which then flows
  through the rest of the computation. The embedding therefore carries the three special
  values explicitly. Finite values are exact reals: rounding, overflow and the sign of zero
  are left out (every zero is \<open>+0\<close>, which is what sums of squares and probabilities give).
\<close>

datatype npfloat = Fin real | PInf | NInf | NaN

fun is_fin :: "npfloat \<Rightarrow> bool" where
  "is_fin (Fin a) = True"
| "is_fin x = False"

fun np_neg :: "npfloat \<Rightarrow> npfloat" where
  "np_neg (Fin a) = Fin (- a)"
| "np_neg PInf = NInf"
| "np_neg NInf = PInf"
| "np_neg NaN = NaN"

fun np_add :: "npfloat \<Rightarrow> npfloat \<Rightarrow> npfloat" where
  "np_add NaN y = NaN"
| "np_add x NaN = NaN"
| "np_add (Fin a) (Fin b) = Fin (a + b)"
| "np_add PInf NInf = NaN"
| "np_add NInf PInf = NaN"
| "np_add PInf y = PInf"
| "np_add x PInf = PInf"
| "np_add NInf y = NInf"
| "np_add x NInf = NInf"

definition np_sub :: "npfloat \<Rightarrow> npfloat \<Rightarrow> npfloat" where
  "np_sub x y = np_add x (np_neg y)"

fun np_mul :: "npfloat \<Rightarrow> npfloat \<Rightarrow> npfloat" where
  "np_mul NaN y = NaN"
| "np_mul x NaN = NaN"
| "np_mul (Fin a) (Fin b) = Fin (a * b)"
| "np_mul PInf (Fin b) = (if b = 0 then NaN else if 0 < b then PInf else NInf)"
| "np_mul NInf (Fin b) = (if b = 0 then NaN else if 0 < b then NInf else PInf)"
| "np_mul (Fin a) PInf = (if a = 0 then NaN else if 0 < a then PInf else NInf)"
| "np_mul (Fin a) NInf = (if a = 0 then NaN else if 0 < a then NInf else PInf)"
| "np_mul PInf PInf = PInf"
| "np_mul PInf NInf = NInf"
| "np_mul NInf PInf = NInf"
| "np_mul NInf NInf = PInf"

fun np_div :: "npfloat \<Rightarrow> npfloat \<Rightarrow> npfloat" where
  "np_div NaN y = NaN"
| "np_div x NaN = NaN"
| "np_div (Fin a) (Fin b) =
     (if b = 0 then (if a = 0 then NaN else if 0 < a then PInf else NInf)
      else Fin (a / b))"
| "np_div (Fin a) PInf = Fin 0"
| "np_div (Fin a) NInf = Fin 0"
| "np_div PInf (Fin b) = (if 0 \<le> b then PInf else NInf)"
| "np_div NInf (Fin b) = (if 0 \<le> b then NInf else PInf)"
| "np_div PInf PInf = NaN"
| "np_div PInf NInf = NaN"
| "np_div NInf PInf = NaN"
| "np_div NInf NInf = NaN"

text \<open>The comparison \<open>x < y\<close>; every comparison with a NaN is false.\<close>

fun np_less :: "npfloat \<Rightarrow> npfloat \<Rightarrow> bool" where
  "np_less NaN y = False"
| "np_less x NaN = False"
| "np_less (Fin a) (Fin b) = (a < b)"
| "np_less PInf y = False"
| "np_less x PInf = True"
| "np_less x NInf = False"
| "np_less NInf y = True"

text \<open>
  Python's builtin \<^verbatim>\<open>max(a, b)\<close> keeps \<open>a\<close> unless \<open>b > a\<close>, and \<^verbatim>\<open>min(a, b)\<close> keeps
  \<open>a\<close> unless \<open>b < a\<close>; a NaN in second place is therefore dropped.
  \<^verbatim>\<open>np.maximum\<close> is the elementwise maximum that propagates a NaN.
\<close>

definition py_max :: "npfloat \<Rightarrow> npfloat \<Rightarrow> npfloat" where
  "py_max a b = (if np_less a b then b else a)"

definition py_min :: "npfloat \<Rightarrow> npfloat \<Rightarrow> npfloat" where
  "py_min a b = (if np_less b a then b else a)"

fun np_maximum :: "npfloat \<Rightarrow> npfloat \<Rightarrow> npfloat" where
  "np_maximum NaN y = NaN"
| "np_maximum x NaN = NaN"
| "np_maximum x y = (if np_less x y then y else x)"

primrec np_sum :: "npfloat list \<Rightarrow> npfloat" where
  "np_sum [] = Fin 0"
| "np_sum (x # xs) = np_add x (np_sum xs)"

text \<open>\<^verbatim>\<open>np.dot\<close> of two one-dimensional arrays.\<close>

definition np_dot :: "npfloat list \<Rightarrow> npfloat list \<Rightarrow> npfloat" where
  "np_dot xs ys = np_sum (map2 np_mul xs ys)"

section \<open>Trust-region projection\<close>

text \<open>
  Lines 230--232 of \<^verbatim>\<open>update\<close> and lines 386--388 of \<^verbatim>\<open>update_on_policy\<close> are the
  same expression:
  \<^verbatim>\<open>z = (g - max(0, ((np.dot(k, g) - self.trust_region_delta) / np.dot(k, k))))\<close>.
  The quotient is a numpy scalar, \<^verbatim>\<open>max\<close> is the builtin, and the subtraction of the
  resulting scalar from the array \<open>g\<close> is broadcast over its components.
\<close>

definition trust_region_quotient :: "npfloat list \<Rightarrow> npfloat list \<Rightarrow> npfloat \<Rightarrow> npfloat" where
  "trust_region_quotient k g trust_region_delta =
     np_div (np_sub (np_dot k g) trust_region_delta) (np_dot k k)"

definition trust_region_z :: "npfloat list \<Rightarrow> npfloat list \<Rightarrow> npfloat \<Rightarrow> npfloat list" where
  "trust_region_z g k trust_region_delta =
     map (\<lambda>x. np_sub x (py_max (Fin 0) (trust_region_quotient k g trust_region_delta))) g"

text \<open>
  The projection as section 4.2 of the specification words it:
  \<open>z = g - max(0, (k\<cdot>g - \<delta>) / (k\<cdot>k)) \<cdot> k\<close>, the scalar multiplied into \<open>k\<close>.
\<close>

definition spec_projection :: "npfloat list \<Rightarrow> npfloat list \<Rightarrow> npfloat \<Rightarrow> npfloat list" where
  "spec_projection g k delta =
     map2 (\<lambda>x kj. np_sub x (np_mul (py_max (Fin 0) (trust_region_quotient k g delta)) kj)) g k"

section \<open>Python errors and container reads\<close>

datatype error =
  KeyError | TypeError | IndexError | ZeroDivisionError | AttributeError | AssertionError
  | IOError

text \<open>Sequencing of fallible steps: the first exception ends the computation.\<close>

definition andthen :: "error + 'a \<Rightarrow> ('a \<Rightarrow> error + 'b) \<Rightarrow> error + 'b" where
  "andthen r f = (case r of Inl e \<Rightarrow> Inl e | Inr x \<Rightarrow> f x)"

text \<open>\<^verbatim>\<open>d[i]\<close> on a dict raises KeyError for a missing key.\<close>

definition getitem :: "(int \<rightharpoonup> 'a) \<Rightarrow> int \<Rightarrow> error + 'a" where
  "getitem d i = (case d i of None \<Rightarrow> Inl KeyError | Some v \<Rightarrow> Inr v)"

section \<open>Distribution and action-value objects\<close>

text \<open>
  The classes of the action distribution and of the action values live in
  \<^verbatim>\<open>chainerrl/distribution.py\<close> and \<^verbatim>\<open>chainerrl/action_value.py\<close>; the automatic
  differentiation is chainer's. The agent reads from a distribution its \<^verbatim>\<open>logits\<close>,
  \<^verbatim>\<open>all_prob\<close>, \<^verbatim>\<open>entropy\<close>, and it back-propagates through \<^verbatim>\<open>all_log_prob\<close> and
  \<^verbatim>\<open>log_prob(a)\<close> down to the logits, where the graph is cut (\<^verbatim>\<open>backprop_truncated\<close>).
  A distribution is therefore given by these data, \<open>all_log_prob_grad\<close> being the
  Jacobian that back-propagation delivers: row \<open>a\<close> is the gradient of
  \<^verbatim>\<open>all_log_prob[a]\<close> with respect to the logits. All vectors of one distribution are
  taken to have one length; where numpy would reject mismatched shapes the list
  operations below truncate.
\<close>

record distrib =
  logits :: "npfloat list"
  all_prob :: "npfloat list"
  all_log_prob_grad :: "npfloat list list"
  entropy :: npfloat

record action_value =
  q_values :: "npfloat list"

text \<open>
  Modelled from the spec: \<^verbatim>\<open>prob(a)\<close>, \<^verbatim>\<open>log_prob(a)\<close> of the distribution class and
  \<^verbatim>\<open>evaluate_actions(a)\<close> of the action-value class, which are not in the source file.
  Section 4.1 gives them as the entry for action \<open>a\<close> of the per-action vector; an action
  outside the vector is reported as IndexError.
\<close>

definition select_item :: "'a list \<Rightarrow> int \<Rightarrow> error + 'a" where
  "select_item xs a =
     (if 0 \<le> a \<and> a < int (length xs) then Inr (xs ! nat a) else Inl IndexError)"

definition prob :: "distrib \<Rightarrow> int \<Rightarrow> error + npfloat" where
  "prob d a = select_item (all_prob d) a"

text \<open>
  Of the variable \<^verbatim>\<open>log_prob(a)\<close> the agent only uses the gradient with respect to the
  logits, so that gradient stands for the variable.
\<close>

definition log_prob :: "distrib \<Rightarrow> int \<Rightarrow> error + npfloat list" where
  "log_prob d a = select_item (all_log_prob_grad d) a"

definition evaluate_actions :: "action_value \<Rightarrow> int \<Rightarrow> error + npfloat" where
  "evaluate_actions av a = select_item (q_values av) a"

text \<open>
  \<^verbatim>\<open>F.sum(action_distrib.all_prob * action_value.q_values, axis=1)\<close>, the state value of
  lines 301, 325, 350 and 455.
\<close>

definition state_value :: "distrib \<Rightarrow> action_value \<Rightarrow> npfloat" where
  "state_value d av = np_sum (map2 np_mul (all_prob d) (q_values av))"

subsection \<open>Gradients with respect to the logits\<close>

text \<open>
  \<^verbatim>\<open>backward()\<close> on a scalar that is a combination \<open>\<Sum> c\<^sub>a \<cdot> x\<^sub>a\<close> of variables with
  constant coefficients leaves in \<^verbatim>\<open>logits.grad\<close> the same combination of the gradients
  of the \<open>x\<^sub>a\<close>.
\<close>

definition vscale :: "npfloat \<Rightarrow> npfloat list \<Rightarrow> npfloat list" where
  "vscale c v = map (np_mul c) v"

definition vadd :: "npfloat list \<Rightarrow> npfloat list \<Rightarrow> npfloat list" where
  "vadd u v = map2 np_add u v"

primrec lin_comb :: "nat \<Rightarrow> (npfloat \<times> npfloat list) list \<Rightarrow> npfloat list" where
  "lin_comb n [] = replicate n (Fin 0)"
| "lin_comb n (cv # cvs) = vadd (vscale (fst cv) (snd cv)) (lin_comb n cvs)"

text \<open>
  \<^verbatim>\<open>compute_discrete_kl(p, q)\<close> is \<^verbatim>\<open>F.sum(p.all_prob * (p.all_log_prob - q.all_log_prob))\<close>
  (line 68). The agent calls it with \<open>p\<close> the average model's distribution, computed
  without gradient tracking, and back-propagates it to the logits of \<open>q\<close>: the result
  \<open>k\<close> of lines 222--227 and 377--382 is the combination of the rows of \<open>q\<close>'s Jacobian
  with coefficients \<open>- p.all_prob\<close>.
\<close>

definition compute_discrete_kl_backward :: "distrib \<Rightarrow> distrib \<Rightarrow> npfloat list" where
  "compute_discrete_kl_backward p q =
     lin_comb (length (logits q)) (zip (map np_neg (all_prob p)) (all_log_prob_grad q))"

section \<open>The agent\<close>

text \<open>
  A transition as \<^verbatim>\<open>act_and_train\<close> and \<^verbatim>\<open>stop_episode_and_train\<close> append it to the
  replay buffer (lines 480--488 and 525--532). \<open>mu\<close> is \<^verbatim>\<open>self.last_action_distrib\<close>,
  which may be \<^verbatim>\<open>None\<close>.
\<close>

record 's transition =
  tr_state :: 's
  tr_action :: int
  tr_reward :: npfloat
  tr_next_state :: 's
  tr_next_action :: int
  is_state_terminal :: bool
  mu :: "distrib option"

text \<open>
  \<open>update_calls\<close> is a ghost field: the schedulers note in it every call of
  \<^verbatim>\<open>update_on_policy\<close> and \<^verbatim>\<open>update_from_replay\<close> they make, in order.
\<close>

datatype update_call = OnPolicyUpdate | ReplayUpdate

text \<open>
  The attributes of \<^verbatim>\<open>DiscreteACER\<close> set by \<^verbatim>\<open>__init__\<close> (lines 119--164).
  \<open>'m\<close> is the parameter values of a model, \<open>'o\<close> the state of the optimizer, \<open>'rb\<close> the
  replay buffer, \<open>'s\<close> an environment state and \<open>'x\<close> the feature vector \<^verbatim>\<open>phi\<close> makes
  of it. The hidden state of a recurrent model is not part of the embedding.
\<close>

record ('m, 'o, 'rb, 's, 'x) agent =
  shared_model :: 'm
  shared_average_model :: 'm
  model :: 'm
  optimizer :: 'o
  replay_buffer :: 'rb
  t_max :: int
  gamma :: npfloat
  beta :: npfloat
  pi_loss_coef :: npfloat
  v_loss_coef :: npfloat
  normalize_loss_by_steps :: bool
  act_deterministically :: bool
  trust_region_alpha :: npfloat
  trust_region_c :: npfloat
  trust_region_delta :: npfloat
  n_times_replay :: int
  average_value_decay :: npfloat
  average_entropy_decay :: npfloat
  process_idx :: int
  t :: int
  t_start :: int
  past_action_log_prob :: "int \<rightharpoonup> npfloat list"
  past_action_entropy :: "int \<rightharpoonup> npfloat"
  past_states :: "int \<rightharpoonup> 'x"
  past_rewards :: "int \<rightharpoonup> npfloat"
  past_values :: "int \<rightharpoonup> npfloat"
  past_action_distrib :: "int \<rightharpoonup> distrib"
  past_avg_action_distrib :: "int \<rightharpoonup> distrib"
  last_state :: "'s option"
  last_action :: "int option"
  last_action_distrib :: "distrib option"
  average_value :: npfloat
  average_entropy :: npfloat
  update_calls :: "update_call list"

text \<open>
  What the agent calls outside its own file: the feature extractor, the forward pass of
  a model, the sampler of a distribution, the gradient step on the shared model
  (lines 255--266: \<^verbatim>\<open>zerograds\<close>, \<^verbatim>\<open>total_loss.backward()\<close>, \<^verbatim>\<open>copy_grad\<close>,
  \<^verbatim>\<open>optimizer.update()\<close>), the soft parameter copy, the replay buffer
  (\<^verbatim>\<open>len\<close>, \<^verbatim>\<open>sample_episodes(1, n)[0]\<close>, \<^verbatim>\<open>append\<close>, \<^verbatim>\<open>stop_current_episode\<close>) and the
  deserialiser. They are parameters of the embedding.
\<close>

record accum =
  pi_loss :: npfloat
  v_loss :: npfloat
  Q_ret :: npfloat
  Q_ret_seq :: "npfloat list"
  z_seq :: "npfloat list list"

record ('m, 'o, 'rb, 's, 'x, 'b) backend =
  phi :: "'s \<Rightarrow> 'x"
  forward :: "'m \<Rightarrow> 'x \<Rightarrow> distrib \<times> action_value"
  sample :: "distrib \<Rightarrow> int"
  gradient_step :: "'m \<Rightarrow> accum \<Rightarrow> 'm \<Rightarrow> 'o \<Rightarrow> 'm \<times> 'o"
  soft_copy_param :: "'m \<Rightarrow> 'm \<Rightarrow> npfloat \<Rightarrow> 'm"
  rb_len :: "'rb \<Rightarrow> nat"
  rb_sample_episode :: "'rb \<Rightarrow> int \<Rightarrow> 's transition list"
  rb_append :: "'rb \<Rightarrow> 's transition \<Rightarrow> 'rb"
  rb_stop_current_episode :: "'rb \<Rightarrow> 'rb"
  load_npz_model :: "'b \<Rightarrow> 'm \<Rightarrow> error + 'm"
  load_npz_optimizer :: "'b \<Rightarrow> 'o \<Rightarrow> error + 'o"

section \<open>The return and correction engine: \<^verbatim>\<open>update\<close>\<close>

text \<open>
  The dict arguments of \<^verbatim>\<open>update\<close> (lines 177--179), one record for all of them.
  A value \<^verbatim>\<open>values[i]\<close> is the number the variable holds; \<^verbatim>\<open>action_log_probs[i]\<close> is
  the gradient of the log-probability with respect to the logits.
\<close>

record 'x window =
  states :: "int \<rightharpoonup> 'x"
  actions :: "int \<rightharpoonup> int"
  rewards :: "int \<rightharpoonup> npfloat"
  values' :: "int \<rightharpoonup> npfloat"
  action_values :: "int \<rightharpoonup> action_value"
  action_log_probs :: "int \<rightharpoonup> npfloat list"
  action_entropy :: "int \<rightharpoonup> npfloat"
  action_distribs :: "int \<rightharpoonup> distrib"
  avg_action_distribs :: "int \<rightharpoonup> distrib"

text \<open>
  Lines 205--207: \<^verbatim>\<open>np.maximum((rho_a[i] - c) / rho_a[i], np.zeros_like(rho_a[i]))\<close>,
  elementwise over the actions.
\<close>

definition correction_weight :: "npfloat \<Rightarrow> npfloat list \<Rightarrow> npfloat list" where
  "correction_weight c rho_a_i = map (\<lambda>r. np_maximum (np_div (np_sub r c) r) (Fin 0)) rho_a_i"

text \<open>
  Lines 200--219: the loss \<open>g_loss\<close> and its gradient \<open>g\<close> at the logits. With
  \<open>rho\<close> given, \<open>g_loss\<close> is \<^verbatim>\<open>rho_bar * log_prob * advantage\<close> plus the sum over the
  actions of \<^verbatim>\<open>correction_weight * all_log_prob * correction_advantage\<close>; without, it is
  \<^verbatim>\<open>log_prob * advantage\<close>.
\<close>

definition g_loss_backward ::
  "('m, 'o, 'rb, 's, 'x) agent \<Rightarrow> 'x window \<Rightarrow> (int \<rightharpoonup> npfloat) option \<Rightarrow>
   (int \<rightharpoonup> npfloat list) option \<Rightarrow> int \<Rightarrow> npfloat \<Rightarrow> npfloat list \<Rightarrow> distrib \<Rightarrow>
   error + npfloat list" where
  "g_loss_backward self w rho rho_a i advantage log_prob_i action_distrib =
     (case rho of
        Some rh \<Rightarrow>
          andthen (getitem rh i) (\<lambda>rho_i.
          let rho_bar = py_min (trust_region_c self) rho_i in
          andthen (case rho_a of None \<Rightarrow> Inl TypeError | Some ra \<Rightarrow> getitem ra i) (\<lambda>rho_a_i.
          let weight = correction_weight (trust_region_c self) rho_a_i in
          andthen (getitem (action_values w) i) (\<lambda>av.
          andthen (getitem (values' w) i) (\<lambda>v.
          let correction_advantage = map (\<lambda>q. np_sub q v) (q_values av) in
          andthen (getitem (action_distribs w) i) (\<lambda>d.
          Inr (vadd (vscale (np_mul rho_bar advantage) log_prob_i)
                 (lin_comb (length (logits action_distrib))
                    (zip (map2 np_mul weight correction_advantage)
                       (all_log_prob_grad d)))))))))
      | None \<Rightarrow> Inr (vscale advantage log_prob_i))"

text \<open>One pass of the loop body, lines 186--241, for the index \<open>i\<close>.\<close>

definition update_step ::
  "('m, 'o, 'rb, 's, 'x) agent \<Rightarrow> 'x window \<Rightarrow> (int \<rightharpoonup> npfloat) option \<Rightarrow>
   (int \<rightharpoonup> npfloat list) option \<Rightarrow> int \<Rightarrow> accum \<Rightarrow> error + accum" where
  "update_step self w rho rho_a i acc =
     andthen (getitem (rewards w) i) (\<lambda>r.
     let Q_ret1 = np_add r (np_mul (gamma self) (Q_ret acc)) in
     andthen (getitem (values' w) i) (\<lambda>v.
     andthen (if process_idx self = 0 then andthen (getitem (states w) i) (\<lambda>x. Inr ())
              else Inr ()) (\<lambda>u.
     let advantage = np_sub Q_ret1 v in
     andthen (getitem (action_log_probs w) i) (\<lambda>log_prob_i.
     andthen (getitem (action_entropy w) i) (\<lambda>entropy_i.
     andthen (getitem (action_distribs w) i) (\<lambda>action_distrib.
     andthen (g_loss_backward self w rho rho_a i advantage log_prob_i action_distrib) (\<lambda>g.
     andthen (getitem (avg_action_distribs w) i) (\<lambda>avg.
     let k = compute_discrete_kl_backward avg action_distrib;
         z = trust_region_z g k (trust_region_delta self);
         pi_loss1 = np_sub (pi_loss acc) (np_dot (logits action_distrib) z);
         pi_loss2 = np_sub pi_loss1 (np_mul (beta self) entropy_i);
         v_loss1 = np_add (v_loss acc)
                     (np_div (np_mul (np_sub Q_ret1 v) (np_sub Q_ret1 v)) (Fin 2)) in
     andthen (getitem (actions w) i) (\<lambda>a.
     andthen (getitem (action_values w) i) (\<lambda>av.
     andthen (evaluate_actions av a) (\<lambda>Q.
     andthen (case rho of None \<Rightarrow> Inl TypeError | Some rh \<Rightarrow> getitem rh i) (\<lambda>rho_i.
     Inr \<lparr>pi_loss = pi_loss2, v_loss = v_loss1,
          Q_ret = np_add (np_mul (py_min (Fin 1) rho_i) (np_sub Q_ret1 Q)) v,
          Q_ret_seq = Q_ret_seq acc @ [Q_ret1],
          z_seq = z_seq acc @ [z]\<rparr>))))))))))))"

text \<open>The loop of line 185 runs the body over \<^verbatim>\<open>reversed(range(t_start, t_stop))\<close>.\<close>

fun update_loop ::
  "('m, 'o, 'rb, 's, 'x) agent \<Rightarrow> 'x window \<Rightarrow> (int \<rightharpoonup> npfloat) option \<Rightarrow>
   (int \<rightharpoonup> npfloat list) option \<Rightarrow> int list \<Rightarrow> accum \<Rightarrow> error + accum" where
  "update_loop self w rho rho_a [] acc = Inr acc"
| "update_loop self w rho rho_a (i # idxs) acc =
     andthen (update_step self w rho rho_a i acc) (update_loop self w rho rho_a idxs)"

text \<open>
  Lines 243--253, and the same lines 395--405 of \<^verbatim>\<open>update_on_policy\<close>. After a loop
  over an empty range \<open>pi_loss\<close> is still a plain number. With normalisation and
  \<open>t_stop = t_start\<close> the division by 0 of line 247 raises ZeroDivisionError; in every
  other case of an empty range (a negative length divides without error, or there is no
  normalisation) \<^verbatim>\<open>pi_loss.data\<close> of lines 251 and 253 raises AttributeError.
\<close>

definition finish_losses ::
  "('m, 'o, 'rb, 's, 'x) agent \<Rightarrow> int \<Rightarrow> int \<Rightarrow> accum \<Rightarrow> error + accum" where
  "finish_losses self tstart tstop acc =
     (if tstop \<le> tstart
      then (if normalize_loss_by_steps self \<and> tstop = tstart then Inl ZeroDivisionError
            else Inl AttributeError)
      else
        let p = np_mul (pi_loss acc) (pi_loss_coef self);
            v = np_mul (v_loss acc) (v_loss_coef self);
            n = Fin (of_int (tstop - tstart))
        in Inr (acc\<lparr>pi_loss := (if normalize_loss_by_steps self then np_div p n else p),
                     v_loss := (if normalize_loss_by_steps self then np_div v n else v)\<rparr>))"

text \<open>Lines 181--253: the losses that \<^verbatim>\<open>update\<close> hands to back-propagation.\<close>

definition update_losses ::
  "('m, 'o, 'rb, 's, 'x) agent \<Rightarrow> int \<Rightarrow> int \<Rightarrow> npfloat \<Rightarrow> 'x window \<Rightarrow>
   (int \<rightharpoonup> npfloat) option \<Rightarrow> (int \<rightharpoonup> npfloat list) option \<Rightarrow> error + accum" where
  "update_losses self tstart tstop R w rho rho_a =
     andthen (update_loop self w rho rho_a (rev [tstart..tstop - 1])
                \<lparr>pi_loss = Fin 0, v_loss = Fin 0, Q_ret = R, Q_ret_seq = [], z_seq = []\<rparr>)
       (finish_losses self tstart tstop)"

text \<open>
  \<^verbatim>\<open>sync_parameters\<close> (lines 166--171): the thread's model takes the shared parameters,
  and the average model moves towards the thread's model with rate \<open>1 - alpha\<close>.
\<close>

definition sync_parameters ::
  "('m, 'o, 'rb, 's, 'x, 'b) backend \<Rightarrow> ('m, 'o, 'rb, 's, 'x) agent \<Rightarrow>
   ('m, 'o, 'rb, 's, 'x) agent" where
  "sync_parameters B self =
     (let m = shared_model self
      in self\<lparr>model := m,
              shared_average_model :=
                soft_copy_param B (shared_average_model self) m
                  (np_sub (Fin 1) (trust_region_alpha self))\<rparr>)"

text \<open>Lines 255--272, and the same lines 407--424 of \<^verbatim>\<open>update_on_policy\<close>.\<close>

definition apply_gradients ::
  "('m, 'o, 'rb, 's, 'x, 'b) backend \<Rightarrow> ('m, 'o, 'rb, 's, 'x) agent \<Rightarrow> accum \<Rightarrow>
   ('m, 'o, 'rb, 's, 'x) agent" where
  "apply_gradients B self L =
     (let (sm, opt) = gradient_step B (model self) L (shared_model self) (optimizer self)
      in sync_parameters B (self\<lparr>shared_model := sm, optimizer := opt\<rparr>))"

definition update ::
  "('m, 'o, 'rb, 's, 'x, 'b) backend \<Rightarrow> ('m, 'o, 'rb, 's, 'x) agent \<Rightarrow> int \<Rightarrow> int \<Rightarrow>
   npfloat \<Rightarrow> 'x window \<Rightarrow> (int \<rightharpoonup> npfloat) option \<Rightarrow> (int \<rightharpoonup> npfloat list) option \<Rightarrow>
   error + ('m, 'o, 'rb, 's, 'x) agent" where
  "update B self tstart tstop R w rho rho_a =
     andthen (update_losses self tstart tstop R w rho rho_a)
       (\<lambda>L. Inr (apply_gradients B self L))"

section \<open>Replay: \<^verbatim>\<open>update_from_replay\<close>\<close>

text \<open>
  Lines 315 and 316: the importance ratio of the taken action and the ratios of all
  actions, \<^verbatim>\<open>action_distrib.prob(ba).data / mu.prob(ba).data\<close> and
  \<^verbatim>\<open>action_distrib.all_prob.data / mu.all_prob.data\<close>, both numpy divisions.
\<close>

definition importance_ratio :: "distrib \<Rightarrow> distrib option \<Rightarrow> int \<Rightarrow> error + npfloat" where
  "importance_ratio action_distrib mu_opt a =
     andthen (prob action_distrib a) (\<lambda>p.
     andthen (case mu_opt of None \<Rightarrow> Inl AttributeError | Some m \<Rightarrow> prob m a) (\<lambda>q.
     Inr (np_div p q)))"

definition importance_ratio_all :: "distrib \<Rightarrow> distrib \<Rightarrow> npfloat list" where
  "importance_ratio_all action_distrib m = map2 np_div (all_prob action_distrib) (all_prob m)"

text \<open>The loop of lines 295--316 over \<^verbatim>\<open>enumerate(episode)\<close>, filling the dicts.\<close>

fun replay_window ::
  "('m, 'o, 'rb, 's, 'x, 'b) backend \<Rightarrow> ('m, 'o, 'rb, 's, 'x) agent \<Rightarrow> int \<Rightarrow>
   's transition list \<Rightarrow>
   'x window \<times> (int \<rightharpoonup> npfloat) \<times> (int \<rightharpoonup> npfloat list) \<Rightarrow>
   error + 'x window \<times> (int \<rightharpoonup> npfloat) \<times> (int \<rightharpoonup> npfloat list)" where
  "replay_window B self n [] acc = Inr acc"
| "replay_window B self n (transition # rest) (w, rho, rho_a) =
     (let s = phi B (tr_state transition);
          a = tr_action transition;
          (action_distrib, action_value) = forward B (model self) s;
          v = state_value action_distrib action_value;
          avg_action_distrib = fst (forward B (shared_average_model self) s)
      in andthen (log_prob action_distrib a) (\<lambda>lp.
         andthen (importance_ratio action_distrib (mu transition) a) (\<lambda>rho_n.
         andthen (case mu transition of None \<Rightarrow> Inl AttributeError | Some m \<Rightarrow> Inr m) (\<lambda>m.
         replay_window B self (n + 1) rest
           (w\<lparr>states := (states w)(n \<mapsto> s),
              actions := (actions w)(n \<mapsto> a),
              action_log_probs := (action_log_probs w)(n \<mapsto> lp),
              action_entropy := (action_entropy w)(n \<mapsto> entropy action_distrib),
              values' := (values' w)(n \<mapsto> v),
              action_distribs := (action_distribs w)(n \<mapsto> action_distrib),
              avg_action_distribs := (avg_action_distribs w)(n \<mapsto> avg_action_distrib),
              rewards := (rewards w)(n \<mapsto> tr_reward transition),
              action_values := (action_values w)(n \<mapsto> action_value)\<rparr>,
            rho(n \<mapsto> rho_n),
            rho_a(n \<mapsto> importance_ratio_all action_distrib m))))))"

definition empty_window :: "'x window" where
  "empty_window =
     \<lparr>states = Map.empty, actions = Map.empty, rewards = Map.empty, values' = Map.empty,
      action_values = Map.empty, action_log_probs = Map.empty, action_entropy = Map.empty,
      action_distribs = Map.empty, avg_action_distribs = Map.empty\<rparr>"

text \<open>
  \<^verbatim>\<open>update_from_replay\<close> (lines 274--339). \<^verbatim>\<open>episode[-1]\<close> raises IndexError on an
  empty episode; the bootstrap value \<open>R\<close> is 0 after a terminal transition and the
  state value of the next state otherwise.
\<close>

definition update_from_replay ::
  "('m, 'o, 'rb, 's, 'x, 'b) backend \<Rightarrow> ('m, 'o, 'rb, 's, 'x) agent \<Rightarrow>
   error + ('m, 'o, 'rb, 's, 'x) agent" where
  "update_from_replay B self =
     (if rb_len B (replay_buffer self) = 0 then Inr self
      else
        let episode = rb_sample_episode B (replay_buffer self) (t_max self + 1)
        in andthen (replay_window B self 0 episode (empty_window, Map.empty, Map.empty))
             (\<lambda>(w, rho, rho_a).
           andthen (if episode = [] then Inl IndexError else Inr (last episode))
             (\<lambda>last_transition.
           let R = (if is_state_terminal last_transition then Fin 0
                    else (let (action_distrib, action_value) =
                                forward B (model self) (phi B (tr_next_state last_transition))
                          in state_value action_distrib action_value))
           in update B self 0 (int (length episode)) R w (Some rho) (Some rho_a))))"

section \<open>The on-policy update: \<^verbatim>\<open>update_on_policy\<close>\<close>

text \<open>
  One pass of the loop body, lines 357--393, for the index \<open>i\<close>. The running return
  \<open>R\<close> of the source is kept in the field \<open>Q_ret\<close> of the accumulator.
\<close>

definition on_policy_step ::
  "('m, 'o, 'rb, 's, 'x) agent \<Rightarrow> int \<Rightarrow> accum \<Rightarrow> error + accum" where
  "on_policy_step self i acc =
     andthen (getitem (past_rewards self) i) (\<lambda>r.
     let R1 = np_add (np_mul (Q_ret acc) (gamma self)) r in
     andthen (getitem (past_values self) i) (\<lambda>v.
     andthen (if process_idx self = 0 then andthen (getitem (past_states self) i) (\<lambda>x. Inr ())
              else Inr ()) (\<lambda>u.
     let advantage = np_sub R1 v in
     andthen (getitem (past_action_log_prob self) i) (\<lambda>log_prob_i.
     andthen (getitem (past_action_entropy self) i) (\<lambda>entropy_i.
     andthen (getitem (past_action_distrib self) i) (\<lambda>action_distrib.
     let g = vscale advantage log_prob_i in
     andthen (getitem (past_avg_action_distrib self) i) (\<lambda>avg.
     let k = compute_discrete_kl_backward avg action_distrib;
         z = trust_region_z g k (trust_region_delta self);
         pi_loss1 = np_sub (pi_loss acc) (np_dot (logits action_distrib) z);
         pi_loss2 = np_sub pi_loss1 (np_mul (beta self) entropy_i);
         v_loss1 = np_add (v_loss acc)
                     (np_div (np_mul (np_sub v R1) (np_sub v R1)) (Fin 2)) in
     Inr \<lparr>pi_loss = pi_loss2, v_loss = v_loss1, Q_ret = R1,
          Q_ret_seq = Q_ret_seq acc @ [R1],
          z_seq = z_seq acc @ [z]\<rparr>)))))))"

fun on_policy_loop ::
  "('m, 'o, 'rb, 's, 'x) agent \<Rightarrow> int list \<Rightarrow> accum \<Rightarrow> error + accum" where
  "on_policy_loop self [] acc = Inr acc"
| "on_policy_loop self (i # idxs) acc =
     andthen (on_policy_step self i acc) (on_policy_loop self idxs)"

text \<open>Lines 354--405: the losses of the window \<open>[t_start, t)\<close> for a bootstrap value.\<close>

definition on_policy_losses ::
  "('m, 'o, 'rb, 's, 'x) agent \<Rightarrow> npfloat \<Rightarrow> error + accum" where
  "on_policy_losses self R =
     andthen (on_policy_loop self (rev [t_start self..t self - 1])
                \<lparr>pi_loss = Fin 0, v_loss = Fin 0, Q_ret = R, Q_ret_seq = [], z_seq = []\<rparr>)
       (finish_losses self (t_start self) (t self))"

text \<open>
  \<^verbatim>\<open>update_on_policy\<close> (lines 341--434): the assertion, the bootstrap value, the losses,
  the gradient step, and then the seven dicts are replaced by empty ones and
  \<open>t_start\<close> is set to \<open>t\<close>.
\<close>

definition update_on_policy ::
  "('m, 'o, 'rb, 's, 'x, 'b) backend \<Rightarrow> ('m, 'o, 'rb, 's, 'x) agent \<Rightarrow> 'x option \<Rightarrow>
   error + ('m, 'o, 'rb, 's, 'x) agent" where
  "update_on_policy B self statevar =
     (if \<not> t_start self < t self then Inl AssertionError
      else
        let R = (case statevar of
                   None \<Rightarrow> Fin 0
                 | Some x \<Rightarrow> (let (action_distrib, action_value) = forward B (model self) x
                              in state_value action_distrib action_value))
        in andthen (on_policy_losses self R) (\<lambda>L.
           let s1 = apply_gradients B self L
           in Inr (s1\<lparr>past_action_log_prob := Map.empty,
                      past_action_entropy := Map.empty,
                      past_states := Map.empty,
                      past_rewards := Map.empty,
                      past_values := Map.empty,
                      past_action_distrib := Map.empty,
                      past_avg_action_distrib := Map.empty,
                      t_start := t s1\<rparr>)))"

section \<open>The schedulers: \<^verbatim>\<open>act_and_train\<close> and \<^verbatim>\<open>stop_episode_and_train\<close>\<close>





section \<open>Checkpoints: \<^verbatim>\<open>load\<close>\<close>

text \<open>
  A directory tree is a map from paths to blobs, and \<^verbatim>\<open>os.path.join\<close> of a directory
  name and a relative file name puts one slash between them unless the directory name
  is empty or ends with one. Reading a missing file is an IOError.
\<close>

definition path_join :: "string \<Rightarrow> string \<Rightarrow> string" where
  "path_join dirname name =
     (if dirname = [] then name
      else if last dirname = CHR ''/'' then dirname @ name
      else dirname @ ''/'' @ name)"

text \<open>
  \<^verbatim>\<open>load\<close> (lines 551--561) returns the agent and the lines it printed.
  \<^verbatim>\<open>copy_param\<close> gives the shared model the parameter values of the thread's model.
\<close>

definition load ::
  "('m, 'o, 'rb, 's, 'x, 'b) backend \<Rightarrow> (string \<rightharpoonup> 'b) \<Rightarrow> ('m, 'o, 'rb, 's, 'x) agent \<Rightarrow>
   string \<Rightarrow> error + ('m, 'o, 'rb, 's, 'x) agent \<times> string list" where
  "load B fs self dirname =
     andthen (case fs (path_join dirname ''model.npz'') of
                None \<Rightarrow> Inl IOError
              | Some b \<Rightarrow> load_npz_model B b (model self)) (\<lambda>m.
     let s1 = self\<lparr>model := m, shared_model := m\<rparr>;
         opt_filename = path_join dirname ''optimizer.npz''
     in (case fs opt_filename of
           Some b \<Rightarrow>
             andthen (load_npz_optimizer B b (optimizer s1)) (\<lambda>opt.
             Inr (s1\<lparr>optimizer := opt\<rparr>, []))
         | None \<Rightarrow>
             Inr (s1, [''WARNING: '' @ opt_filename
                       @ '' was not found, so loaded only a model''])))"

section \<open>The plain discounted return\<close>

text \<open>
  The closed-form backward sum of section 8 of the specification, for rewards \<open>rs\<close>, a
  discount \<open>g\<close> and a bootstrap value \<open>R\<close> after the last step: the return from step \<open>i\<close>
  is \<open>\<Sum>\<^bsub>j \<ge> i\<^esub> g\<^bsup>j - i\<^esup> \<cdot> rs\<^bsub>j\<^esub> + g\<^bsup>n - i\<^esup> \<cdot> R\<close>.
\<close>

definition discounted_return :: "real \<Rightarrow> real list \<Rightarrow> real \<Rightarrow> nat \<Rightarrow> real" where
  "discounted_return g rs R i =
     sum_list (map (\<lambda>j. g ^ (j - i) * rs ! j) [i..<length rs]) + g ^ (length rs - i) * R"

section \<open>Concrete data\<close>

text \<open>
  A two-action agent for evaluating the definitions: a uniform policy with logits
  \<open>(0, 0)\<close>, whose Jacobian of the log-probabilities is the softmax one
  (\<open>\<delta>\<^bsub>aj\<^esub> - \<pi>\<^bsub>j\<^esub>\<close>), an average policy \<open>(3/4, 1/4)\<close>, and a behaviour distribution
  whose first probability has underflowed to 0.
\<close>

definition demo_distrib :: distrib where
  "demo_distrib =
     \<lparr>logits = [Fin 0, Fin 0], all_prob = [Fin (1/2), Fin (1/2)],
      all_log_prob_grad = [[Fin (1/2), Fin (- 1/2)], [Fin (- 1/2), Fin (1/2)]],
      entropy = Fin (6931/10000)\<rparr>"

definition demo_avg_distrib :: distrib where
  "demo_avg_distrib =
     \<lparr>logits = [Fin (11/10), Fin 0], all_prob = [Fin (3/4), Fin (1/4)],
      all_log_prob_grad = [[Fin (1/4), Fin (- 1/4)], [Fin (- 3/4), Fin (3/4)]],
      entropy = Fin (5623/10000)\<rparr>"

definition demo_mu_zero :: distrib where
  "demo_mu_zero =
     \<lparr>logits = [Fin (- 1000), Fin 0], all_prob = [Fin 0, Fin 1],
      all_log_prob_grad = [[Fin 1, Fin (- 1)], [Fin 0, Fin 0]],
      entropy = Fin 0\<rparr>"

definition demo_backend :: "(nat, nat, nat transition list, nat, nat, nat) backend" where
  "demo_backend =
     \<lparr>phi = (\<lambda>s. s),
      forward = (\<lambda>m x. (demo_distrib, \<lparr>q_values = [Fin 1, Fin 1]\<rparr>)),
      sample = (\<lambda>d. 0),
      gradient_step = (\<lambda>m L sm opt. (Suc sm, Suc opt)),
      soft_copy_param = (\<lambda>target source tau. target),
      rb_len = length,
      rb_sample_episode = (\<lambda>rb n. take (nat n) rb),
      rb_append = (\<lambda>rb tr. rb @ [tr]),
      rb_stop_current_episode = (\<lambda>rb. rb),
      load_npz_model = (\<lambda>b m. Inr b),
      load_npz_optimizer = (\<lambda>b opt. Inr b)\<rparr>"

text \<open>The agent as \<^verbatim>\<open>__init__\<close> leaves it, with horizon 1 and two replay updates.\<close>

definition demo_agent :: "(nat, nat, nat transition list, nat, nat) agent" where
  "demo_agent =
     \<lparr>shared_model = 0, shared_average_model = 0, model = 0, optimizer = 0,
      replay_buffer = [], t_max = 1, gamma = Fin (99/100), beta = Fin (1/100),
      pi_loss_coef = Fin 1, v_loss_coef = Fin (1/2), normalize_loss_by_steps = True,
      act_deterministically = False, trust_region_alpha = Fin (99/100),
      trust_region_c = Fin 10, trust_region_delta = Fin 1, n_times_replay = 2,
      average_value_decay = Fin (999/1000), average_entropy_decay = Fin (999/1000),
      process_idx = 0, t = 0, t_start = 0,
      past_action_log_prob = Map.empty, past_action_entropy = Map.empty,
      past_states = Map.empty, past_rewards = Map.empty, past_values = Map.empty,
      past_action_distrib = Map.empty, past_avg_action_distrib = Map.empty,
      last_state = None, last_action = None, last_action_distrib = None,
      average_value = Fin 0, average_entropy = Fin 0, update_calls = []\<rparr>"

text \<open>The agent one step later, its window \<open>[0, 1)\<close> full.\<close>

definition demo_window_agent :: "(nat, nat, nat transition list, nat, nat) agent" where
  "demo_window_agent =
     demo_agent\<lparr>t := 1,
       past_action_log_prob := [0 \<mapsto> [Fin (1/2), Fin (- 1/2)]],
       past_action_entropy := [0 \<mapsto> Fin (6931/10000)],
       past_states := [0 \<mapsto> 7],
       past_rewards := [- 1 \<mapsto> Fin 0, 0 \<mapsto> Fin 1],
       past_values := [0 \<mapsto> Fin 1],
       past_action_distrib := [0 \<mapsto> demo_distrib],
       past_avg_action_distrib := [0 \<mapsto> demo_distrib],
       last_state := Some 7, last_action := Some 0,
       last_action_distrib := Some demo_distrib\<rparr>"

text \<open>
  A three-step window with rewards 1, 0, 2 in which every step took action 0 under the
  uniform policy, with action values \<open>q\<close> and state value \<open>v\<close> at every step.
\<close>

definition on_steps :: "int \<Rightarrow> 'a \<Rightarrow> (int \<rightharpoonup> 'a)" where
  "on_steps n x = (\<lambda>i. if 0 \<le> i \<and> i < n then Some x else None)"

definition demo_window :: "npfloat list \<Rightarrow> npfloat \<Rightarrow> nat window" where
  "demo_window q v =
     \<lparr>states = on_steps 3 7, actions = on_steps 3 0,
      rewards = [0 \<mapsto> Fin 1, 1 \<mapsto> Fin 0, 2 \<mapsto> Fin 2],
      values' = on_steps 3 v,
      action_values = on_steps 3 \<lparr>q_values = q\<rparr>,
      action_log_probs = on_steps 3 [Fin (1/2), Fin (- 1/2)],
      action_entropy = on_steps 3 (Fin (6931/10000)),
      action_distribs = on_steps 3 demo_distrib,
      avg_action_distribs = on_steps 3 demo_avg_distrib\<rparr>"

text \<open>The agent whose own window \<open>[0, 3)\<close> holds the same data, with discount 0.9.\<close>

definition demo_agent3 ::
  "npfloat \<Rightarrow> (nat, nat, nat transition list, nat, nat) agent" where
  "demo_agent3 v =
     demo_agent\<lparr>gamma := Fin (9/10), t := 3,
       past_action_log_prob := on_steps 3 [Fin (1/2), Fin (- 1/2)],
       past_action_entropy := on_steps 3 (Fin (6931/10000)),
       past_states := on_steps 3 7,
       past_rewards := [0 \<mapsto> Fin 1, 1 \<mapsto> Fin 0, 2 \<mapsto> Fin 2],
       past_values := on_steps 3 v,
       past_action_distrib := on_steps 3 demo_distrib,
       past_avg_action_distrib := on_steps 3 demo_avg_distrib\<rparr>"

text \<open>
  A terminal transition that took action 0 although the stored behaviour distribution
  gives it probability 0.
\<close>

definition demo_transition :: "nat transition" where
  "demo_transition =
     \<lparr>tr_state = 7, tr_action = 0, tr_reward = Fin 1, tr_next_state = 8,
      tr_next_action = 0, is_state_terminal = True, mu = Some demo_mu_zero\<rparr>"

section \<open>Arithmetic of the special values\<close>

lemma np_sub_zero: "np_sub x (Fin 0) = x"
  by (cases x) (simp_all add: np_sub_def)

lemma np_dot_zero_self: "\<forall>x\<in>set k. x = Fin 0 \<Longrightarrow> np_dot k k = Fin 0"
  by (induction k) (simp_all add: np_dot_def)

lemma np_dot_zero_left:
  "\<forall>x\<in>set k. x = Fin 0 \<Longrightarrow> np_dot k g = Fin 0 \<or> np_dot k g = NaN"
proof (induction k arbitrary: g)
  case Nil
  then show ?case by (simp add: np_dot_def)
next
  case (Cons a k)
  show ?case
  proof (cases g)
    case Nil
    then show ?thesis by (simp add: np_dot_def)
  next
    case (Cons b g')
    have a: "a = Fin 0" using Cons.prems by simp
    have "np_dot k g' = Fin 0 \<or> np_dot k g' = NaN" using Cons.IH Cons.prems by simp
    moreover have "np_mul a b = Fin 0 \<or> np_mul a b = NaN" using a by (cases b) simp_all
    ultimately show ?thesis using Cons by (auto simp: np_dot_def)
  qed
qed

section \<open>The trust-region projection\<close>

text \<open>
  Claim C1. The claim: the projection of both update paths is
  \<open>z = g - max(0, (k\<cdot>g - \<delta>) / (k\<cdot>k)) \<cdot> k\<close>, the correction scalar being multiplied
  into the vector \<open>k\<close> before the subtraction. The code subtracts the scalar itself from
  every component of \<open>g\<close>. At \<open>g = (2, 0)\<close>, \<open>k = (1, 0)\<close>, \<open>\<delta> = 1\<close> the scalar is 1:
  the code yields \<open>(1, -1)\<close>, the formula of the claim \<open>(1, 0)\<close>.
\<close>

theorem C1_projection_subtracts_scalar:
  "trust_region_z [Fin 2, Fin 0] [Fin 1, Fin 0] (Fin 1) = [Fin 1, Fin (- 1)]
   \<and> spec_projection [Fin 2, Fin 0] [Fin 1, Fin 0] (Fin 1) = [Fin 1, Fin 0]"
  by (simp add: trust_region_z_def spec_projection_def trust_region_quotient_def
      np_dot_def np_sub_def py_max_def)

lemma np_dot_zero_fin:
  "\<forall>x\<in>set k. x = Fin 0 \<Longrightarrow> \<forall>x\<in>set g. is_fin x \<Longrightarrow> np_dot k g = Fin 0"
proof (induction k arbitrary: g)
  case Nil
  then show ?case by (simp add: np_dot_def)
next
  case (Cons a k)
  show ?case
  proof (cases g)
    case Nil
    then show ?thesis by (simp add: np_dot_def)
  next
    case (Cons b g')
    have a: "a = Fin 0" using Cons.prems(1) by simp
    have "is_fin b" using Cons.prems(2) Cons by simp
    then obtain r where b: "b = Fin r" by (cases b) simp_all
    have "np_dot k g' = Fin 0" using Cons.IH Cons.prems Cons by simp
    then show ?thesis using a b Cons by (simp add: np_dot_def)
  qed
qed

lemma sub_PInf_fin: "\<forall>x\<in>set g. is_fin x \<Longrightarrow> map (\<lambda>x. np_sub x PInf) g = map (\<lambda>x. NInf) g"
proof (induction g)
  case Nil
  then show ?case by simp
next
  case (Cons b g)
  then have "is_fin b" by simp
  then obtain r where "b = Fin r" by (cases b) simp_all
  with Cons show ?case by (simp add: np_sub_def)
qed

text \<open>
  Claim C2, as the code has it. For every gradient \<open>g\<close>, if \<open>k\<close> is the zero vector and
  the radius \<open>\<delta>\<close> is finite and not negative, the projection returns \<open>g\<close> unchanged.
  There is no guard: the division by \<open>k\<cdot>k = 0\<close> is evaluated. For a finite \<open>g\<close> the
  quotient is minus infinity when \<open>\<delta> > 0\<close>, NaN when \<open>\<delta> = 0\<close> and plus infinity when
  \<open>\<delta> < 0\<close>; the builtin \<^verbatim>\<open>max(0, _)\<close> replaces the first two by 0, and for \<open>\<delta> < 0\<close>
  every component of the result is minus infinity instead of the component of \<open>g\<close>.
\<close>

theorem C2_zero_k_returns_g:
  assumes "\<forall>x\<in>set k. x = Fin 0"
  shows "np_dot k k = Fin 0 \<and>
     (0 \<le> d \<longrightarrow> trust_region_z g k (Fin d) = g) \<and>
     ((\<forall>x\<in>set g. is_fin x) \<longrightarrow>
        trust_region_quotient k g (Fin d) =
          (if d = 0 then NaN else if 0 < d then NInf else PInf) \<and>
        (d < 0 \<longrightarrow> trust_region_z g k (Fin d) = map (\<lambda>x. NInf) g))"
proof (intro conjI impI)
  show kk: "np_dot k k = Fin 0" using assms by (rule np_dot_zero_self)
  {
    assume d: "0 \<le> d"
    have kg: "np_dot k g = Fin 0 \<or> np_dot k g = NaN" using assms by (rule np_dot_zero_left)
    have "trust_region_quotient k g (Fin d) = NInf \<or> trust_region_quotient k g (Fin d) = NaN"
      using kg kk d by (auto simp: trust_region_quotient_def np_sub_def)
    then have "py_max (Fin 0) (trust_region_quotient k g (Fin d)) = Fin 0"
      by (auto simp: py_max_def)
    then show "trust_region_z g k (Fin d) = g"
      by (simp add: trust_region_z_def np_sub_zero)
  }
  {
    assume fin: "\<forall>x\<in>set g. is_fin x"
    have kg: "np_dot k g = Fin 0" using assms fin by (rule np_dot_zero_fin)
    show q: "trust_region_quotient k g (Fin d) =
          (if d = 0 then NaN else if 0 < d then NInf else PInf)"
      using kg kk by (simp add: trust_region_quotient_def np_sub_def)
    {
      assume neg: "d < 0"
      have "py_max (Fin 0) (trust_region_quotient k g (Fin d)) = PInf"
        using q neg by (simp add: py_max_def)
      then show "trust_region_z g k (Fin d) = map (\<lambda>x. NInf) g"
        using sub_PInf_fin [OF fin] by (simp add: trust_region_z_def)
    }
  }
qed

theorem C2_zero_k_returns_g_witness:
  "trust_region_z [Fin 3, Fin (- 2)] [Fin 0, Fin 0] (Fin 1) = [Fin 3, Fin (- 2)] \<and>
   trust_region_quotient [Fin 0, Fin 0] [Fin 3, Fin (- 2)] (Fin 1) = NInf \<and>
   trust_region_quotient [Fin 0, Fin 0] [Fin 3, Fin (- 2)] (Fin 0) = NaN \<and>
   trust_region_quotient [Fin 0, Fin 0] [Fin 3, Fin (- 2)] (Fin (- 1)) = PInf \<and>
   trust_region_z [Fin 3, Fin (- 2)] [Fin 0, Fin 0] (Fin (- 1)) = [NInf, NInf]"
  using C2_zero_k_returns_g [where k = "[Fin 0, Fin 0]" and g = "[Fin 3, Fin (- 2)]" and d = 1]
    C2_zero_k_returns_g [where k = "[Fin 0, Fin 0]" and g = "[Fin 3, Fin (- 2)]" and d = 0]
    C2_zero_k_returns_g [where k = "[Fin 0, Fin 0]" and g = "[Fin 3, Fin (- 2)]" and d = "- 1"]
  by simp

text \<open>
  The claim C2 as stated fails: with \<open>k = (0, 0)\<close> and \<open>g = (1, 2)\<close> the divisor
  \<open>k\<cdot>k\<close> is 0 and the quotient the code evaluates is minus infinity for \<open>\<delta> = 1\<close> and NaN
  for \<open>\<delta> = 0\<close>; for \<open>\<delta> = -1\<close> it is plus infinity and the result is not \<open>g\<close>.
\<close>

theorem C2_unguarded_division:
  "np_dot [Fin 0, Fin 0] [Fin 0, Fin 0] = Fin 0
   \<and> trust_region_quotient [Fin 0, Fin 0] [Fin 1, Fin 2] (Fin 1) = NInf
   \<and> trust_region_quotient [Fin 0, Fin 0] [Fin 1, Fin 2] (Fin 0) = NaN
   \<and> trust_region_z [Fin 1, Fin 2] [Fin 0, Fin 0] (Fin (- 1)) = [NInf, NInf]"
  by (simp add: trust_region_z_def trust_region_quotient_def np_dot_def np_sub_def py_max_def)

section \<open>Sequencing and frame lemmas\<close>

lemma andthen_Inl [simp]: "andthen (Inl e) f = Inl e"
  by (simp add: andthen_def)

lemma andthen_Inr [simp]: "andthen (Inr x) f = f x"
  by (simp add: andthen_def)

lemma andthen_eq_Inr: "andthen r f = Inr y \<longleftrightarrow> (\<exists>x. r = Inr x \<and> f x = Inr y)"
  by (cases r) simp_all


lemma getitem_Some [simp]: "d i = Some v \<Longrightarrow> getitem d i = Inr v"
  by (simp add: getitem_def)

lemma getitem_None [simp]: "d i = None \<Longrightarrow> getitem d i = Inl KeyError"
  by (simp add: getitem_def)

lemma upto_0_2: "[0..(2::int)] = [0, 1, 2]"
  by (simp add: upto.simps)

lemma upto_single: "[i..i] = [i]"
  by (simp add: upto.simps)

lemma sync_parameters_frame:
  "t (sync_parameters B s) = t s" "t_start (sync_parameters B s) = t_start s"
  "update_calls (sync_parameters B s) = update_calls s"
  "n_times_replay (sync_parameters B s) = n_times_replay s"
  by (simp_all add: sync_parameters_def Let_def)

lemma apply_gradients_frame:
  "t (apply_gradients B s L) = t s" "t_start (apply_gradients B s L) = t_start s"
  "update_calls (apply_gradients B s L) = update_calls s"
  "n_times_replay (apply_gradients B s L) = n_times_replay s"
  by (simp_all add: apply_gradients_def sync_parameters_frame split: prod.splits)





section \<open>The window after an on-policy update\<close>

text \<open>
  Claim C7. Whenever \<^verbatim>\<open>update_on_policy\<close> completes, \<open>t_start\<close> equals the value \<open>t\<close>
  had before the update (which the update does not change), and the seven dicts of
  the trajectory window are empty.
\<close>

theorem C7_window_cleared:
  assumes "update_on_policy B self statevar = Inr s'"
  shows "t_start s' = t self \<and> t s' = t self \<and>
    past_rewards s' = Map.empty \<and> past_states s' = Map.empty \<and>
    past_values s' = Map.empty \<and> past_action_log_prob s' = Map.empty \<and>
    past_action_entropy s' = Map.empty \<and> past_action_distrib s' = Map.empty \<and>
    past_avg_action_distrib s' = Map.empty"
proof -
  from assms obtain L where
    s': "s' = (apply_gradients B self L)\<lparr>past_action_log_prob := Map.empty,
                      past_action_entropy := Map.empty,
                      past_states := Map.empty,
                      past_rewards := Map.empty,
                      past_values := Map.empty,
                      past_action_distrib := Map.empty,
                      past_avg_action_distrib := Map.empty,
                      t_start := t (apply_gradients B self L)\<rparr>"
    by (auto simp: update_on_policy_def Let_def andthen_eq_Inr split: if_splits)
  show ?thesis unfolding s' by (simp add: apply_gradients_frame)
qed

lemma demo_update_on_policy_returns:
  "\<exists>s. update_on_policy demo_backend demo_window_agent (Some 8) = Inr s"
  apply (simp add: update_on_policy_def demo_window_agent_def demo_agent_def demo_backend_def
      Let_def state_value_def demo_distrib_def on_policy_losses_def on_policy_step_def
      upto_single)
  apply (simp add: finish_losses_def apply_gradients_def sync_parameters_def
      compute_discrete_kl_backward_def trust_region_z_def trust_region_quotient_def
      np_dot_def np_sub_def vscale_def vadd_def py_max_def Let_def)
  done

theorem C7_window_cleared_witness:
  "\<exists>s'. update_on_policy demo_backend demo_window_agent (Some 8) = Inr s' \<and>
     t_start s' = 1 \<and> t s' = 1 \<and> past_rewards s' = Map.empty \<and>
     past_states s' = Map.empty \<and> past_values s' = Map.empty \<and>
     past_action_log_prob s' = Map.empty \<and> past_action_entropy s' = Map.empty \<and>
     past_action_distrib s' = Map.empty \<and> past_avg_action_distrib s' = Map.empty"
proof -
  obtain s' where r: "update_on_policy demo_backend demo_window_agent (Some 8) = Inr s'"
    using demo_update_on_policy_returns by blast
  have "t demo_window_agent = 1" by (simp add: demo_window_agent_def)
  with C7_window_cleared [OF r] r show ?thesis by simp
qed

section \<open>Replay on an empty buffer\<close>

text \<open>
  Claim C8. When \<^verbatim>\<open>len(self.replay_buffer)\<close> is 0, \<^verbatim>\<open>update_from_replay\<close> returns
  at once: no exception, and the agent (models, optimizer, dicts, counters) is as it was.
\<close>

theorem C8_empty_replay_noop:
  "rb_len B (replay_buffer self) = 0 \<Longrightarrow> update_from_replay B self = Inr self"
  by (simp add: update_from_replay_def)

theorem C8_empty_replay_noop_witness:
  "update_from_replay demo_backend demo_agent = Inr demo_agent"
  using C8_empty_replay_noop [of demo_backend demo_agent]
  by (simp add: demo_backend_def demo_agent_def)


section \<open>When the updates run\<close>








section \<open>\<^verbatim>\<open>update\<close> without importance ratios\<close>

lemma update_step_no_rho: "\<exists>e. update_step self w None rho_a i acc = Inl e"
  by (auto simp: update_step_def g_loss_backward_def andthen_def Let_def split: sum.splits)

lemma update_step_no_rho_TypeError:
  assumes "rewards w i = Some r" "values' w i = Some v" "states w i = Some x"
    "action_log_probs w i = Some lp" "action_entropy w i = Some h"
    "action_distribs w i = Some d" "avg_action_distribs w i = Some avg"
    "actions w i = Some a" "action_values w i = Some av" "evaluate_actions av a = Inr Q"
  shows "update_step self w None rho_a i acc = Inl TypeError"
  using assms by (simp add: update_step_def g_loss_backward_def Let_def)

lemma rev_upto_nonempty:
  "tstart < tstop \<Longrightarrow> rev [tstart..tstop - 1] = (tstop - 1) # rev [tstart..tstop - 2]"
  by (simp add: upto_rec2 [of tstart "tstop - 1"])

text \<open>
  Claim C10. With \<open>rho = None\<close> no pass of the loop body of \<^verbatim>\<open>update\<close> completes, so
  on a non-empty window \<^verbatim>\<open>update\<close> raises in its first pass. When every dict read of
  that pass succeeds, the exception is the TypeError of \<^verbatim>\<open>rho[i]\<close> in line 241.
\<close>

theorem C10_update_without_rho_raises:
  "(\<exists>e. update_step self w None rho_a i acc = Inl e) \<and>
   (tstart < tstop \<longrightarrow> (\<exists>e. update B self tstart tstop R w None rho_a = Inl e)) \<and>
   (tstart < tstop \<and> rewards w (tstop - 1) \<noteq> None \<and> values' w (tstop - 1) \<noteq> None \<and>
    states w (tstop - 1) \<noteq> None \<and> action_log_probs w (tstop - 1) \<noteq> None \<and>
    action_entropy w (tstop - 1) \<noteq> None \<and> action_distribs w (tstop - 1) \<noteq> None \<and>
    avg_action_distribs w (tstop - 1) \<noteq> None \<and>
    (\<exists>a av Q. actions w (tstop - 1) = Some a \<and> action_values w (tstop - 1) = Some av \<and>
       evaluate_actions av a = Inr Q)
    \<longrightarrow> update B self tstart tstop R w None rho_a = Inl TypeError)"
proof (intro conjI impI)
  show "\<exists>e. update_step self w None rho_a i acc = Inl e" by (rule update_step_no_rho)
next
  assume lt: "tstart < tstop"
  let ?acc = "\<lparr>pi_loss = Fin 0, v_loss = Fin 0, Q_ret = R, Q_ret_seq = [], z_seq = []\<rparr>"
  obtain e where "update_step self w None rho_a (tstop - 1) ?acc = Inl e"
    using update_step_no_rho by blast
  then have "update B self tstart tstop R w None rho_a = Inl e"
    by (simp add: update_def update_losses_def rev_upto_nonempty [OF lt])
  then show "\<exists>e. update B self tstart tstop R w None rho_a = Inl e" by blast
next
  let ?i = "tstop - 1"
  let ?acc = "\<lparr>pi_loss = Fin 0, v_loss = Fin 0, Q_ret = R, Q_ret_seq = [], z_seq = []\<rparr>"
  assume h: "tstart < tstop \<and> rewards w ?i \<noteq> None \<and> values' w ?i \<noteq> None \<and>
    states w ?i \<noteq> None \<and> action_log_probs w ?i \<noteq> None \<and>
    action_entropy w ?i \<noteq> None \<and> action_distribs w ?i \<noteq> None \<and>
    avg_action_distribs w ?i \<noteq> None \<and>
    (\<exists>a av Q. actions w ?i = Some a \<and> action_values w ?i = Some av \<and>
       evaluate_actions av a = Inr Q)"
  then obtain r v x lp h' d avg a av Q where
    "rewards w ?i = Some r" "values' w ?i = Some v" "states w ?i = Some x"
    "action_log_probs w ?i = Some lp" "action_entropy w ?i = Some h'"
    "action_distribs w ?i = Some d" "avg_action_distribs w ?i = Some avg"
    "actions w ?i = Some a" "action_values w ?i = Some av" "evaluate_actions av a = Inr Q"
    by auto
  then have "update_step self w None rho_a ?i ?acc = Inl TypeError"
    by (rule update_step_no_rho_TypeError)
  moreover have "tstart < tstop" using h by simp
  ultimately show "update B self tstart tstop R w None rho_a = Inl TypeError"
    by (simp add: update_def update_losses_def rev_upto_nonempty)
qed

theorem C10_update_without_rho_raises_witness:
  "update demo_backend demo_agent 0 3 (Fin 0) (demo_window [Fin 1, Fin 1] (Fin 1)) None None
     = Inl TypeError"
  using C10_update_without_rho_raises
    [of demo_agent "demo_window [Fin 1, Fin 1] (Fin 1)" None 0
        "\<lparr>pi_loss = Fin 0, v_loss = Fin 0, Q_ret = Fin 0, Q_ret_seq = [], z_seq = []\<rparr>"
        0 3 demo_backend "Fin 0"]
  by (simp add: demo_window_def on_steps_def evaluate_actions_def select_item_def)

section \<open>Loading a checkpoint without optimizer state\<close>

text \<open>
  Claim C9. If the directory holds \<^verbatim>\<open>model.npz\<close>, which the deserialiser reads into
  the parameters \<open>m\<close>, and holds no \<^verbatim>\<open>optimizer.npz\<close>, then \<^verbatim>\<open>load\<close> returns
  normally: the thread's model and the shared model have the parameters \<open>m\<close>, the
  optimizer and every other attribute are unchanged, and one warning line is printed.
\<close>

theorem C9_load_without_optimizer:
  assumes "fs (path_join dirname ''model.npz'') = Some b"
    and "load_npz_model B b (model self) = Inr m"
    and "fs (path_join dirname ''optimizer.npz'') = None"
  shows "load B fs self dirname =
           Inr (self\<lparr>model := m, shared_model := m\<rparr>,
                [''WARNING: '' @ path_join dirname ''optimizer.npz''
                 @ '' was not found, so loaded only a model''])
         \<and> optimizer (self\<lparr>model := m, shared_model := m\<rparr>) = optimizer self"
  using assms by (simp add: load_def Let_def)

theorem C9_load_without_optimizer_witness:
  "load demo_backend [''ckpt/model.npz'' \<mapsto> 5] demo_agent ''ckpt'' =
     Inr (demo_agent\<lparr>model := 5, shared_model := 5\<rparr>,
          [''WARNING: ckpt/optimizer.npz was not found, so loaded only a model''])"
  using C9_load_without_optimizer
    [of "[''ckpt/model.npz'' \<mapsto> 5]" "''ckpt''" 5 demo_backend demo_agent 5]
  by (simp add: path_join_def demo_backend_def)


section \<open>Importance ratios of a zero behaviour probability\<close>

lemma select_item_nat: "j < length xs \<Longrightarrow> select_item xs (int j) = Inr (xs ! j)"
  by (simp add: select_item_def)

text \<open>
  Claim C6, as the code has it. When the stored behaviour distribution gives an action
  the probability 0 and the current policy gives it a probability \<open>p \<ge> 0\<close>, nothing
  guards the division: the ratio of lines 315 and 316 is plus infinity (\<open>p > 0\<close>) or NaN
  (\<open>p = 0\<close>). The truncations \<^verbatim>\<open>min(c, rho)\<close> and \<^verbatim>\<open>min(1, rho)\<close> of such a ratio are
  \<open>c\<close> and 1, and the bias-correction weight of that action is NaN, not zero.
\<close>

theorem C6_zero_behaviour_probability:
  assumes "j < length (all_prob d)" and "j < length (all_prob m)"
    and "all_prob m ! j = Fin 0" and "all_prob d ! j = Fin p" and "0 \<le> p"
  shows "importance_ratio d (Some m) (int j) = Inr (if p = 0 then NaN else PInf) \<and>
     importance_ratio_all d m ! j = (if p = 0 then NaN else PInf) \<and>
     py_min (Fin c) (if p = 0 then NaN else PInf) = Fin c \<and>
     py_min (Fin 1) (if p = 0 then NaN else PInf) = Fin 1 \<and>
     correction_weight (Fin c) (importance_ratio_all d m) ! j = NaN"
proof -
  have r: "np_div (Fin p) (Fin 0) = (if p = 0 then NaN else PInf)"
    using assms(5) by simp
  have 1: "importance_ratio d (Some m) (int j) = Inr (if p = 0 then NaN else PInf)"
    using assms r by (simp add: importance_ratio_def prob_def select_item_nat)
  have 2: "importance_ratio_all d m ! j = (if p = 0 then NaN else PInf)"
    using assms r by (simp add: importance_ratio_all_def)
  have 3: "correction_weight (Fin c) (importance_ratio_all d m) ! j = NaN"
    using assms(1,2) 2 by (simp add: correction_weight_def importance_ratio_all_def np_sub_def)
  show ?thesis using 1 2 3 by (simp add: py_min_def)
qed

theorem C6_zero_behaviour_probability_witness:
  "importance_ratio demo_distrib (Some demo_mu_zero) 0 = Inr PInf \<and>
   py_min (Fin 10) PInf = Fin 10 \<and>
   correction_weight (Fin 10) (importance_ratio_all demo_distrib demo_mu_zero) ! 0 = NaN"
  using C6_zero_behaviour_probability [of 0 demo_distrib demo_mu_zero "1/2" 10]
  by (simp add: demo_distrib_def demo_mu_zero_def)

text \<open>
  The claim C6 as stated fails. For the replayed transition \<open>demo_transition\<close> the ratio
  of the taken action is plus infinity, the bias-correction weights are \<open>(NaN, 0)\<close>, and
  the policy loss that \<^verbatim>\<open>update\<close> computes from the episode of this one transition is
  NaN.
\<close>

theorem C6_zero_probability_gives_nan:
  "importance_ratio demo_distrib (Some demo_mu_zero) 0 = Inr PInf
   \<and> correction_weight (Fin 10) (importance_ratio_all demo_distrib demo_mu_zero)
       = [NaN, Fin 0]
   \<and> (case replay_window demo_backend demo_agent 0 [demo_transition]
              (empty_window, Map.empty, Map.empty) of
         Inl e \<Rightarrow> Fin 0
       | Inr (w, rho, rho_a) \<Rightarrow>
           (case update_losses demo_agent 0 1 (Fin 0) w (Some rho) (Some rho_a) of
              Inl e \<Rightarrow> Fin 0 | Inr L \<Rightarrow> pi_loss L)) = NaN"
  apply (intro conjI)
    apply (simp add: importance_ratio_def prob_def select_item_def demo_distrib_def
      demo_mu_zero_def)
   apply (simp add: correction_weight_def importance_ratio_all_def demo_distrib_def
      demo_mu_zero_def np_sub_def)
  apply (simp add: demo_transition_def demo_backend_def demo_agent_def demo_distrib_def
      demo_mu_zero_def empty_window_def Let_def log_prob_def select_item_def
      importance_ratio_def importance_ratio_all_def prob_def state_value_def)
  apply (simp add: update_losses_def update_step_def g_loss_backward_def finish_losses_def
      Let_def correction_weight_def compute_discrete_kl_backward_def trust_region_z_def
      trust_region_quotient_def np_dot_def np_sub_def vscale_def vadd_def py_max_def
      py_min_def evaluate_actions_def select_item_def upto_single)
  done

section \<open>The return recursion\<close>

lemma py_min_one_one: "py_min (Fin 1) (Fin 1) = Fin 1"
  by (simp add: py_min_def)

lemma update_step_rebase:
  assumes "rewards w i = Some (Fin r)" and "gamma self = Fin gm" and "Q_ret acc = Fin q"
    and "rho i = Some (Fin 1)"
    and "values' w i = Some (Fin v)" and "actions w i = Some a"
    and "action_values w i = Some av" and "evaluate_actions av a = Inr (Fin v)"
    and "states w i \<noteq> None" and "action_log_probs w i \<noteq> None"
    and "action_entropy w i \<noteq> None" and "action_distribs w i \<noteq> None"
    and "avg_action_distribs w i \<noteq> None" and "rho_a i \<noteq> None"
  shows "\<exists>acc'. update_step self w (Some rho) (Some rho_a) i acc = Inr acc' \<and>
           Q_ret acc' = Fin (r + gm * q) \<and>
           Q_ret_seq acc' = Q_ret_seq acc @ [Fin (r + gm * q)]"
proof -
  from assms obtain x lp h d avg ra where
    "states w i = Some x" "action_log_probs w i = Some lp" "action_entropy w i = Some h"
    "action_distribs w i = Some d" "avg_action_distribs w i = Some avg" "rho_a i = Some ra"
    by auto
  with assms show ?thesis
    by (simp add: update_step_def g_loss_backward_def Let_def np_sub_def py_min_one_one)
qed

lemma finish_losses_nonempty:
  "tstart < tstop \<Longrightarrow>
     \<exists>L. finish_losses self tstart tstop acc = Inr L \<and> Q_ret_seq L = Q_ret_seq acc"
  by (simp add: finish_losses_def Let_def)

lemma rev_upto_0_2: "rev [0..(2::int)] = [2, 1, 0]"
  by (simp add: upto_0_2)

lemma discounted_return_102:
  "discounted_return (9/10) [1, 0, 2] R0 2 = 2 + 9/10 * R0"
  "discounted_return (9/10) [1, 0, 2] R0 1 = 0 + 9/10 * (2 + 9/10 * R0)"
  "discounted_return (9/10) [1, 0, 2] R0 0 = 1 + 9/10 * (0 + 9/10 * (2 + 9/10 * R0))"
  by (simp_all add: discounted_return_def upt_rec power2_eq_square power3_eq_cube
      field_simps)

text \<open>
  Claim C3, as the code has it. For the three-step episode with rewards 1, 0, 2,
  discount 0.9, every importance ratio 1 and a finite bootstrap value \<open>R0\<close>, if moreover
  the action value of the taken action equals the state value at every step
  (\<open>Q(s\<^sub>i, a\<^sub>i) = V[i]\<close>), then \<^verbatim>\<open>update\<close> completes its loop and the sequence of its
  \<open>Q_ret\<close> targets, in the order of the backward pass, is the plain discounted return from
  steps 2, 1 and 0.
\<close>

theorem C3_return_recursion:
  assumes gm: "gamma self = Fin (9/10)"
    and r0: "rewards w 0 = Some (Fin 1)" and r1: "rewards w 1 = Some (Fin 0)"
    and r2: "rewards w 2 = Some (Fin 2)"
    and rho: "\<And>i. i \<in> {0, 1, 2} \<Longrightarrow> rho i = Some (Fin 1)"
    and reads: "\<And>i. i \<in> {0, 1, 2} \<Longrightarrow>
          values' w i = Some (Fin (v i)) \<and> actions w i = Some (a i) \<and>
          action_values w i = Some (av i) \<and> evaluate_actions (av i) (a i) = Inr (Fin (v i)) \<and>
          states w i \<noteq> None \<and> action_log_probs w i \<noteq> None \<and>
          action_entropy w i \<noteq> None \<and> action_distribs w i \<noteq> None \<and>
          avg_action_distribs w i \<noteq> None \<and> rho_a i \<noteq> None"
  shows "\<exists>L. update_losses self 0 3 (Fin R0) w (Some rho) (Some rho_a) = Inr L \<and>
           Q_ret_seq L = [Fin (discounted_return (9/10) [1, 0, 2] R0 2),
                          Fin (discounted_return (9/10) [1, 0, 2] R0 1),
                          Fin (discounted_return (9/10) [1, 0, 2] R0 0)]"
proof -
  let ?acc0 = "\<lparr>pi_loss = Fin 0, v_loss = Fin 0, Q_ret = Fin R0, Q_ret_seq = [], z_seq = []\<rparr>"
  let ?G2 = "2 + 9/10 * R0"
  let ?G1 = "0 + 9/10 * ?G2"
  let ?G0 = "1 + 9/10 * ?G1"
  obtain acc1 where s2: "update_step self w (Some rho) (Some rho_a) 2 ?acc0 = Inr acc1"
    and q1: "Q_ret acc1 = Fin ?G2" and l1: "Q_ret_seq acc1 = [Fin ?G2]"
    using update_step_rebase [of w 2 2 self "9/10" ?acc0 R0 rho "v 2" "a 2" "av 2" rho_a]
      gm r2 rho [of 2] reads [of 2] by auto
  obtain acc2 where s1: "update_step self w (Some rho) (Some rho_a) 1 acc1 = Inr acc2"
    and q2: "Q_ret acc2 = Fin ?G1" and l2: "Q_ret_seq acc2 = [Fin ?G2, Fin ?G1]"
    using update_step_rebase [of w 1 0 self "9/10" acc1 ?G2 rho "v 1" "a 1" "av 1" rho_a]
      gm r1 rho [of 1] reads [of 1] q1 l1 by auto
  obtain acc3 where s0: "update_step self w (Some rho) (Some rho_a) 0 acc2 = Inr acc3"
    and l3: "Q_ret_seq acc3 = [Fin ?G2, Fin ?G1, Fin ?G0]"
    using update_step_rebase [of w 0 1 self "9/10" acc2 ?G1 rho "v 0" "a 0" "av 0" rho_a]
      gm r0 rho [of 0] reads [of 0] q2 l2 by auto
  obtain L where f: "finish_losses self 0 3 acc3 = Inr L" and lL: "Q_ret_seq L = Q_ret_seq acc3"
    using finish_losses_nonempty [of 0 3 self acc3] by auto
  have "update_losses self 0 3 (Fin R0) w (Some rho) (Some rho_a) = Inr L"
    using s2 s1 s0 f by (simp add: update_losses_def rev_upto_0_2)
  then show ?thesis unfolding discounted_return_102 using lL l3 by simp
qed

theorem C3_return_recursion_witness:
  "\<exists>L. update_losses (demo_agent3 (Fin 1)) 0 3 (Fin 0) (demo_window [Fin 1, Fin 1] (Fin 1))
          (Some (on_steps 3 (Fin 1))) (Some (on_steps 3 [Fin 1, Fin 1])) = Inr L \<and>
        Q_ret_seq L = [Fin (discounted_return (9/10) [1, 0, 2] 0 2),
                       Fin (discounted_return (9/10) [1, 0, 2] 0 1),
                       Fin (discounted_return (9/10) [1, 0, 2] 0 0)]"
  by (rule C3_return_recursion
      [where v = "\<lambda>i. 1" and a = "\<lambda>i. 0" and av = "\<lambda>i. \<lparr>q_values = [Fin 1, Fin 1]\<rparr>"])
    (auto simp: demo_agent3_def demo_agent_def demo_window_def on_steps_def
      evaluate_actions_def select_item_def)

text \<open>
  The claim C3 as stated fails when the action value of the taken action differs from
  the state value. With action values \<open>(1, -1)\<close> under the uniform policy the state value
  is 0 and the taken action 0 has value 1: the targets of \<^verbatim>\<open>update\<close> are 2, 0.9 and
  0.91, the plain discounted returns are 2, 1.8 and 2.62.
\<close>

theorem C3_rebased_returns_differ:
  "(case update_losses (demo_agent3 (Fin 0)) 0 3 (Fin 0)
           (demo_window [Fin 1, Fin (- 1)] (Fin 0))
           (Some (on_steps 3 (Fin 1))) (Some (on_steps 3 [Fin 1, Fin 1])) of
      Inl e \<Rightarrow> [] | Inr L \<Rightarrow> Q_ret_seq L) = [Fin 2, Fin (9/10), Fin (91/100)]
   \<and> [discounted_return (9/10) [1, 0, 2] 0 2, discounted_return (9/10) [1, 0, 2] 0 1,
       discounted_return (9/10) [1, 0, 2] 0 0] = [2, 9/5, 131/50]"
  apply (rule conjI)
   apply (simp add: update_losses_def update_step_def g_loss_backward_def finish_losses_def
      Let_def on_steps_def demo_window_def demo_agent3_def demo_agent_def demo_distrib_def
      demo_avg_distrib_def correction_weight_def compute_discrete_kl_backward_def
      trust_region_z_def trust_region_quotient_def np_dot_def np_sub_def vscale_def vadd_def
      py_max_def py_min_def evaluate_actions_def select_item_def upto_0_2)
  apply (simp add: discounted_return_def upt_rec power2_eq_square power3_eq_cube)
  done


section \<open>The off-policy path on on-policy data\<close>

lemma np_add_zero_right: "np_add x (Fin 0) = x"
  by (cases x) simp_all

lemma np_mul_one_left: "np_mul (Fin 1) x = x"
  by (cases x) simp_all

lemma vadd_zeros: "length xs = n \<Longrightarrow> vadd xs (replicate n (Fin 0)) = xs"
proof (induction xs arbitrary: n)
  case Nil
  then show ?case by (simp add: vadd_def)
next
  case (Cons x xs)
  then obtain k where n: "n = Suc k" and k: "length xs = k" by (cases n) auto
  have "vadd xs (replicate k (Fin 0)) = xs" using Cons.IH [OF k] .
  then show ?case using n by (simp add: vadd_def np_add_zero_right)
qed

lemma vscale_zero:
  "\<forall>x\<in>set row. is_fin x \<Longrightarrow> vscale (Fin 0) row = replicate (length row) (Fin 0)"
proof (induction row)
  case Nil
  then show ?case by (simp add: vscale_def)
next
  case (Cons x row)
  then obtain a where "x = Fin a" by (cases x) auto
  with Cons show ?case by (simp add: vscale_def)
qed

lemma lin_comb_zero:
  "\<forall>cv\<in>set cvs. fst cv = Fin 0 \<and> length (snd cv) = n \<and> (\<forall>x\<in>set (snd cv). is_fin x) \<Longrightarrow>
     lin_comb n cvs = replicate n (Fin 0)"
proof (induction cvs)
  case Nil
  then show ?case by simp
next
  case (Cons cv cvs)
  have 1: "fst cv = Fin 0" and 2: "length (snd cv) = n" and 3: "\<forall>x\<in>set (snd cv). is_fin x"
    using Cons.prems by simp_all
  have "vscale (fst cv) (snd cv) = replicate n (Fin 0)"
    using vscale_zero [OF 3] 1 2 by simp
  moreover have "lin_comb n cvs = replicate n (Fin 0)"
    using Cons.IH Cons.prems by simp
  moreover have "vadd (replicate n (Fin 0)) (replicate n (Fin 0)) = replicate n (Fin 0)"
    by (rule vadd_zeros) simp
  ultimately show ?case by simp
qed

lemma correction_weight_ones:
  assumes "1 \<le> c" and "\<forall>x\<in>set ra. x = Fin 1"
  shows "\<forall>x\<in>set (correction_weight (Fin c) ra). x = Fin 0"
  using assms by (auto simp: correction_weight_def np_sub_def)


lemma is_fin_iff: "is_fin x \<longleftrightarrow> (\<exists>a. x = Fin a)"
  by (cases x) simp_all

lemma zero_weights:
  assumes "\<forall>x\<in>set ws. x = Fin 0" and "\<forall>x\<in>set cs. is_fin x"
  shows "\<forall>x\<in>set (map2 np_mul ws cs). x = Fin 0"
proof
  fix x assume "x \<in> set (map2 np_mul ws cs)"
  then obtain w c where wc: "(w, c) \<in> set (zip ws cs)" and x: "x = np_mul w c" by auto
  from wc have "w \<in> set ws" by (rule set_zip_leftD)
  moreover from wc have "c \<in> set cs" by (rule set_zip_rightD)
  ultimately obtain b where "w = Fin 0" "c = Fin b" using assms by (cases c) auto
  with x show "x = Fin 0" by simp
qed

lemma off_policy_g:
  assumes c: "1 \<le> c" and ra: "\<forall>x\<in>set ra. x = Fin 1"
    and q: "\<forall>x\<in>set qs. is_fin x"
    and J: "\<forall>row\<in>set J. length row = n \<and> (\<forall>x\<in>set row. is_fin x)"
    and lp: "length lp = n"
  shows "vadd (vscale (np_mul (py_min (Fin c) (Fin 1)) adv) lp)
           (lin_comb n (zip (map2 np_mul (correction_weight (Fin c) ra)
                               (map (\<lambda>q. np_sub q (Fin v)) qs)) J))
         = vscale adv lp"
proof -
  let ?ws = "map2 np_mul (correction_weight (Fin c) ra) (map (\<lambda>q. np_sub q (Fin v)) qs)"
  have 1: "py_min (Fin c) (Fin 1) = Fin 1" using c by (simp add: py_min_def)
  have w: "\<forall>x\<in>set (correction_weight (Fin c) ra). x = Fin 0"
    using c ra by (rule correction_weight_ones)
  have ca: "\<forall>x\<in>set (map (\<lambda>q. np_sub q (Fin v)) qs). is_fin x"
  proof
    fix x assume "x \<in> set (map (\<lambda>q. np_sub q (Fin v)) qs)"
    then obtain y where y: "y \<in> set qs" and x: "x = np_sub y (Fin v)" by auto
    from y q have "is_fin y" by simp
    then obtain b where "y = Fin b" by (auto simp: is_fin_iff)
    with x show "is_fin x" by (simp add: np_sub_def)
  qed
  have z: "\<forall>x\<in>set ?ws. x = Fin 0" using w ca by (rule zero_weights)
  have "\<forall>cv\<in>set (zip ?ws J).
          fst cv = Fin 0 \<and> length (snd cv) = n \<and> (\<forall>x\<in>set (snd cv). is_fin x)"
  proof
    fix cv assume cv: "cv \<in> set (zip ?ws J)"
    obtain cf row where p: "cv = (cf, row)" by (cases cv)
    from cv p have m1: "cf \<in> set ?ws" by (auto dest: set_zip_leftD)
    from cv p have m2: "row \<in> set J" by (auto dest: set_zip_rightD)
    have a: "cf = Fin 0" using z m1 by blast
    have b: "length row = n \<and> (\<forall>x\<in>set row. is_fin x)" using J m2 by blast
    show "fst cv = Fin 0 \<and> length (snd cv) = n \<and> (\<forall>x\<in>set (snd cv). is_fin x)"
      using p a b by simp
  qed
  then have l: "lin_comb n (zip ?ws J) = replicate n (Fin 0)"
    by (rule lin_comb_zero)
  have "length (vscale adv lp) = n" using lp by (simp add: vscale_def)
  then have "vadd (vscale adv lp) (replicate n (Fin 0)) = vscale adv lp"
    by (rule vadd_zeros)
  then show ?thesis unfolding l 1 np_mul_one_left .
qed


lemma sq_diff_swap:
  "(v + (- r - gm * q)) * (v + (- r - gm * q)) = (r + gm * q - v) * (r + gm * q - (v::real))"
  by (simp add: algebra_simps)

lemma update_step_on_policy:
  assumes c: "trust_region_c self = Fin c" "1 \<le> c"
    and gm: "gamma self = Fin gm" and q: "Q_ret acc = Fin q"
    and same: "rewards w = past_rewards self" "values' w = past_values self"
      "states w = past_states self" "action_log_probs w = past_action_log_prob self"
      "action_entropy w = past_action_entropy self"
      "action_distribs w = past_action_distrib self"
      "avg_action_distribs w = past_avg_action_distrib self"
    and data: "past_rewards self i = Some (Fin r)" "past_values self i = Some (Fin v)"
      "past_states self i = Some x" "past_action_log_prob self i = Some lp"
      "past_action_entropy self i = Some h" "past_action_distrib self i = Some d"
      "past_avg_action_distrib self i = Some avg"
    and rho: "rho i = Some (Fin 1)" "rho_a i = Some ra" "\<forall>y\<in>set ra. y = Fin 1"
    and act: "actions w i = Some a" "action_values w i = Some av"
      "evaluate_actions av a = Inr (Fin v)"
    and fin: "\<forall>y\<in>set (q_values av). is_fin y"
      "\<forall>row\<in>set (all_log_prob_grad d).
          length row = length (logits d) \<and> (\<forall>y\<in>set row. is_fin y)"
      "length lp = length (logits d)"
  shows "\<exists>acc'. update_step self w (Some rho) (Some rho_a) i acc = Inr acc' \<and>
           on_policy_step self i acc = Inr acc' \<and> Q_ret acc' = Fin (r + gm * q)"
proof -
  let ?adv = "Fin (r + gm * q - v)"
  have g: "g_loss_backward self w (Some rho) (Some rho_a) i ?adv lp d = Inr (vscale ?adv lp)"
    using off_policy_g [OF c(2) rho(3) fin(1) fin(2) fin(3), of ?adv v]
    by (simp add: g_loss_backward_def Let_def c(1) rho(1,2) act(2) same data)
  have off: "update_step self w (Some rho) (Some rho_a) i acc =
      Inr \<lparr>pi_loss = np_sub (np_sub (pi_loss acc)
                 (np_dot (logits d)
                    (trust_region_z (vscale ?adv lp) (compute_discrete_kl_backward avg d)
                       (trust_region_delta self))))
               (np_mul (beta self) h),
           v_loss = np_add (v_loss acc) (Fin ((r + gm * q - v) * (r + gm * q - v) / 2)),
           Q_ret = Fin (r + gm * q),
           Q_ret_seq = Q_ret_seq acc @ [Fin (r + gm * q)],
           z_seq = z_seq acc @
             [trust_region_z (vscale ?adv lp) (compute_discrete_kl_backward avg d)
                (trust_region_delta self)]\<rparr>"
    using g by (simp add: update_step_def Let_def same data gm q rho(1) act np_sub_def
        py_min_def)
  have on: "on_policy_step self i acc =
      Inr \<lparr>pi_loss = np_sub (np_sub (pi_loss acc)
                 (np_dot (logits d)
                    (trust_region_z (vscale ?adv lp) (compute_discrete_kl_backward avg d)
                       (trust_region_delta self))))
               (np_mul (beta self) h),
           v_loss = np_add (v_loss acc) (Fin ((r + gm * q - v) * (r + gm * q - v) / 2)),
           Q_ret = Fin (r + gm * q),
           Q_ret_seq = Q_ret_seq acc @ [Fin (r + gm * q)],
           z_seq = z_seq acc @
             [trust_region_z (vscale ?adv lp) (compute_discrete_kl_backward avg d)
                (trust_region_delta self)]\<rparr>"
    by (simp add: on_policy_step_def Let_def data gm q np_sub_def mult.commute [of q gm]
        add.commute [of "gm * q" r] sq_diff_swap)
  show ?thesis unfolding off on by simp
qed


lemma update_loop_on_policy:
  assumes c: "trust_region_c self = Fin c" "1 \<le> c"
    and gm: "gamma self = Fin gm"
    and same: "rewards w = past_rewards self" "values' w = past_values self"
      "states w = past_states self" "action_log_probs w = past_action_log_prob self"
      "action_entropy w = past_action_entropy self"
      "action_distribs w = past_action_distrib self"
      "avg_action_distribs w = past_avg_action_distrib self"
    and steps: "\<And>i. i \<in> set idxs \<Longrightarrow>
      \<exists>r v x lp h d avg ra a av.
        past_rewards self i = Some (Fin r) \<and> past_values self i = Some (Fin v) \<and>
        past_states self i = Some x \<and> past_action_log_prob self i = Some lp \<and>
        past_action_entropy self i = Some h \<and> past_action_distrib self i = Some d \<and>
        past_avg_action_distrib self i = Some avg \<and>
        rho i = Some (Fin 1) \<and> rho_a i = Some ra \<and> (\<forall>y\<in>set ra. y = Fin 1) \<and>
        actions w i = Some a \<and> action_values w i = Some av \<and>
        evaluate_actions av a = Inr (Fin v) \<and> (\<forall>y\<in>set (q_values av). is_fin y) \<and>
        (\<forall>row\<in>set (all_log_prob_grad d).
            length row = length (logits d) \<and> (\<forall>y\<in>set row. is_fin y)) \<and>
        length lp = length (logits d)"
    and q: "Q_ret acc = Fin q"
  shows "\<exists>acc'. update_loop self w (Some rho) (Some rho_a) idxs acc = Inr acc' \<and>
           on_policy_loop self idxs acc = Inr acc'"
  using steps q
proof (induction idxs arbitrary: acc q)
  case Nil
  then show ?case by simp
next
  case (Cons i idxs)
  from Cons.prems(1) [of i] obtain r v x lp h d avg ra a av where
    d: "past_rewards self i = Some (Fin r)" "past_values self i = Some (Fin v)"
      "past_states self i = Some x" "past_action_log_prob self i = Some lp"
      "past_action_entropy self i = Some h" "past_action_distrib self i = Some d"
      "past_avg_action_distrib self i = Some avg"
    and r: "rho i = Some (Fin 1)" "rho_a i = Some ra" "\<forall>y\<in>set ra. y = Fin 1"
    and a: "actions w i = Some a" "action_values w i = Some av"
      "evaluate_actions av a = Inr (Fin v)"
    and f: "\<forall>y\<in>set (q_values av). is_fin y"
      "\<forall>row\<in>set (all_log_prob_grad d).
          length row = length (logits d) \<and> (\<forall>y\<in>set row. is_fin y)"
      "length lp = length (logits d)"
    by auto
  obtain acc1 where
    1: "update_step self w (Some rho) (Some rho_a) i acc = Inr acc1"
    and 2: "on_policy_step self i acc = Inr acc1"
    and 3: "Q_ret acc1 = Fin (r + gm * q)"
    using update_step_on_policy
      [where self = self and w = w and rho = rho and rho_a = rho_a and i = i and acc = acc,
        OF c gm Cons.prems(2) same d r a f]
    by blast
  have "\<exists>acc'. update_loop self w (Some rho) (Some rho_a) idxs acc1 = Inr acc' \<and>
           on_policy_loop self idxs acc1 = Inr acc'"
    using Cons.IH [OF _ 3] Cons.prems(1) by simp
  with 1 2 show ?case by simp
qed

text \<open>
  Claim C4, as the code has it. Let the dicts handed to \<^verbatim>\<open>update\<close> be the agent's own
  window \<open>[t_start, t)\<close>, with every importance ratio equal to 1 (\<open>rho\<close> and every entry
  of \<open>rho_a\<close>). If moreover the clip constant \<open>c\<close> is at least 1 and the action value of
  the taken action equals the state value at every step (\<open>Q(s\<^sub>i, a\<^sub>i) = V[i]\<close>), all
  values being finite and the gradient vectors of one length, then the off-policy path
  and \<^verbatim>\<open>update_on_policy\<close> both complete and hand the same losses to back-propagation:
  the same policy loss, value loss, return targets and projected gradients \<open>z\<close>.
\<close>

theorem C4_on_off_policy_equal:
  assumes window: "t_start self < t self"
    and c: "trust_region_c self = Fin c" "1 \<le> c"
    and gm: "gamma self = Fin gm"
    and same: "rewards w = past_rewards self" "values' w = past_values self"
      "states w = past_states self" "action_log_probs w = past_action_log_prob self"
      "action_entropy w = past_action_entropy self"
      "action_distribs w = past_action_distrib self"
      "avg_action_distribs w = past_avg_action_distrib self"
    and steps: "\<And>i. t_start self \<le> i \<Longrightarrow> i < t self \<Longrightarrow>
      \<exists>r v x lp h d avg ra a av.
        past_rewards self i = Some (Fin r) \<and> past_values self i = Some (Fin v) \<and>
        past_states self i = Some x \<and> past_action_log_prob self i = Some lp \<and>
        past_action_entropy self i = Some h \<and> past_action_distrib self i = Some d \<and>
        past_avg_action_distrib self i = Some avg \<and>
        rho i = Some (Fin 1) \<and> rho_a i = Some ra \<and> (\<forall>y\<in>set ra. y = Fin 1) \<and>
        actions w i = Some a \<and> action_values w i = Some av \<and>
        evaluate_actions av a = Inr (Fin v) \<and> (\<forall>y\<in>set (q_values av). is_fin y) \<and>
        (\<forall>row\<in>set (all_log_prob_grad d).
            length row = length (logits d) \<and> (\<forall>y\<in>set row. is_fin y)) \<and>
        length lp = length (logits d)"
  shows "\<exists>L. update_losses self (t_start self) (t self) (Fin R0) w (Some rho) (Some rho_a)
               = Inr L \<and>
             on_policy_losses self (Fin R0) = Inr L"
proof -
  let ?acc0 = "\<lparr>pi_loss = Fin 0, v_loss = Fin 0, Q_ret = Fin R0, Q_ret_seq = [], z_seq = []\<rparr>"
  let ?idxs = "rev [t_start self..t self - 1]"
  have "\<exists>acc'. update_loop self w (Some rho) (Some rho_a) ?idxs ?acc0 = Inr acc' \<and>
           on_policy_loop self ?idxs ?acc0 = Inr acc'"
  proof (rule update_loop_on_policy [OF c gm same])
    fix i assume "i \<in> set ?idxs"
    then have "t_start self \<le> i" "i < t self" by auto
    then show "\<exists>r v x lp h d avg ra a av.
        past_rewards self i = Some (Fin r) \<and> past_values self i = Some (Fin v) \<and>
        past_states self i = Some x \<and> past_action_log_prob self i = Some lp \<and>
        past_action_entropy self i = Some h \<and> past_action_distrib self i = Some d \<and>
        past_avg_action_distrib self i = Some avg \<and>
        rho i = Some (Fin 1) \<and> rho_a i = Some ra \<and> (\<forall>y\<in>set ra. y = Fin 1) \<and>
        actions w i = Some a \<and> action_values w i = Some av \<and>
        evaluate_actions av a = Inr (Fin v) \<and> (\<forall>y\<in>set (q_values av). is_fin y) \<and>
        (\<forall>row\<in>set (all_log_prob_grad d).
            length row = length (logits d) \<and> (\<forall>y\<in>set row. is_fin y)) \<and>
        length lp = length (logits d)"
      by (rule steps)
  next
    show "Q_ret ?acc0 = Fin R0" by simp
  qed
  then obtain acc' where
    1: "update_loop self w (Some rho) (Some rho_a) ?idxs ?acc0 = Inr acc'"
    and 2: "on_policy_loop self ?idxs ?acc0 = Inr acc'"
    by blast
  obtain L where 3: "finish_losses self (t_start self) (t self) acc' = Inr L"
    using finish_losses_nonempty [OF window] by blast
  show ?thesis using 1 2 3 by (simp add: update_losses_def on_policy_losses_def)
qed

theorem C4_on_off_policy_equal_witness:
  "\<exists>L. update_losses (demo_agent3 (Fin 1)) 0 3 (Fin 0) (demo_window [Fin 1, Fin 1] (Fin 1))
          (Some (on_steps 3 (Fin 1))) (Some (on_steps 3 [Fin 1, Fin 1])) = Inr L \<and>
        on_policy_losses (demo_agent3 (Fin 1)) (Fin 0) = Inr L"
proof -
  let ?A = "demo_agent3 (Fin 1)"
  let ?w = "demo_window [Fin 1, Fin 1] (Fin 1)"
  have ts: "t_start ?A = 0" "t ?A = 3" by (simp_all add: demo_agent3_def demo_agent_def)
  have "\<exists>L. update_losses ?A (t_start ?A) (t ?A) (Fin 0) ?w
               (Some (on_steps 3 (Fin 1))) (Some (on_steps 3 [Fin 1, Fin 1])) = Inr L \<and>
             on_policy_losses ?A (Fin 0) = Inr L"
  proof (rule C4_on_off_policy_equal [where c = 10 and gm = "9/10"])
    fix i :: int
    assume "t_start ?A \<le> i" "i < t ?A"
    then have "i = 0 \<or> i = 1 \<or> i = 2" using ts by arith
    then show "\<exists>r v x lp h d avg ra a av.
        past_rewards ?A i = Some (Fin r) \<and> past_values ?A i = Some (Fin v) \<and>
        past_states ?A i = Some x \<and> past_action_log_prob ?A i = Some lp \<and>
        past_action_entropy ?A i = Some h \<and> past_action_distrib ?A i = Some d \<and>
        past_avg_action_distrib ?A i = Some avg \<and>
        on_steps 3 (Fin 1) i = Some (Fin 1) \<and> on_steps 3 [Fin 1, Fin 1] i = Some ra \<and>
        (\<forall>y\<in>set ra. y = Fin 1) \<and>
        actions ?w i = Some a \<and> action_values ?w i = Some av \<and>
        evaluate_actions av a = Inr (Fin v) \<and> (\<forall>y\<in>set (q_values av). is_fin y) \<and>
        (\<forall>row\<in>set (all_log_prob_grad d).
            length row = length (logits d) \<and> (\<forall>y\<in>set row. is_fin y)) \<and>
        length lp = length (logits d)"
      by (elim disjE)
        (simp_all add: demo_agent3_def demo_agent_def demo_window_def on_steps_def
          evaluate_actions_def select_item_def demo_distrib_def)
  qed (simp_all add: demo_agent3_def demo_agent_def demo_window_def)
  then show ?thesis by (simp add: ts)
qed

text \<open>
  The claim C4 as stated fails when the action value of the taken action differs from
  the state value: on the three-step window with action values \<open>(1, -1)\<close> and state
  value 0, all ratios 1, the two paths give different value losses and different
  projected policy gradients.
\<close>

theorem C4_paths_differ:
  "(case update_losses (demo_agent3 (Fin 0)) 0 3 (Fin 0)
           (demo_window [Fin 1, Fin (- 1)] (Fin 0))
           (Some (on_steps 3 (Fin 1))) (Some (on_steps 3 [Fin 1, Fin 1])) of
      Inl e \<Rightarrow> None | Inr L \<Rightarrow> Some (v_loss L, z_seq L))
     = Some (Fin (56381/120000),
             [[Fin 1, Fin (- 1)], [Fin (9/20), Fin (- 9/20)], [Fin (91/200), Fin (- 91/200)]])
   \<and> (case on_policy_losses (demo_agent3 (Fin 0)) (Fin 0) of
      Inl e \<Rightarrow> None | Inr L \<Rightarrow> Some (v_loss L, z_seq L))
     = Some (Fin (35261/30000),
             [[Fin 1, Fin (- 1)], [Fin (9/10), Fin (- 9/10)], [Fin (131/100), Fin (- 131/100)]])"
  apply (rule conjI)
   apply (simp add: update_losses_def update_step_def g_loss_backward_def finish_losses_def
      Let_def on_steps_def demo_window_def demo_agent3_def demo_agent_def demo_distrib_def
      demo_avg_distrib_def correction_weight_def compute_discrete_kl_backward_def
      trust_region_z_def trust_region_quotient_def np_dot_def np_sub_def vscale_def vadd_def
      py_max_def py_min_def evaluate_actions_def select_item_def upto_0_2)
  apply (simp add: on_policy_losses_def on_policy_step_def finish_losses_def
      Let_def on_steps_def demo_agent3_def demo_agent_def demo_distrib_def
      demo_avg_distrib_def compute_discrete_kl_backward_def
      trust_region_z_def trust_region_quotient_def np_dot_def np_sub_def vscale_def vadd_def
      py_max_def upto_0_2)
  done

end
